theory Spec2Isabelle
  imports Complex_Main "HOL-Library.Multiset"
begin

section \<open>Python values\<close>

text \<open>
  The bot is written in Python. Its strings are modelled as \<^typ>\<open>string\<close>; the Russian
  literals of the source are not ASCII and appear here transliterated (they are data: no
  function inspects them). \<open>None\<close> is \<^term>\<open>None\<close>, so a value that may be absent has an
  option type. The two exceptions the modelled code can raise are values.
\<close>

datatype error = AttributeError | IndexError

text \<open>
  \<open>str.lower()\<close>. Python lowers every cased code point; the model lowers the letters
  \<open>A\<close> to \<open>Z\<close> and leaves every other character alone. The general theorems below use of
  \<open>lower\<close> only that it is a function and that lowering twice is lowering once.
\<close>

definition lower_char :: "char \<Rightarrow> char" where
  "lower_char c =
     (case map_of (zip ''ABCDEFGHIJKLMNOPQRSTUVWXYZ'' ''abcdefghijklmnopqrstuvwxyz'') c of
        None \<Rightarrow> c
      | Some d \<Rightarrow> d)"

definition lower :: "string \<Rightarrow> string" where
  "lower s = map lower_char s"

text \<open>Truthiness: \<open>not x\<close> holds of \<open>None\<close>, of the empty string and of the integer \<open>0\<close>.\<close>

definition falsy_str :: "string option \<Rightarrow> bool" where
  "falsy_str s = (s = None \<or> s = Some [])"

definition falsy_int :: "int option \<Rightarrow> bool" where
  "falsy_int i = (i = None \<or> i = Some 0)"

text \<open>\<open>d.get(key, [])\<close> on a dictionary entry that holds a list.\<close>

definition get_list :: "'a list option \<Rightarrow> 'a list" where
  "get_list v = (case v of None \<Rightarrow> [] | Some xs \<Rightarrow> xs)"

text \<open>
  A Python \<open>set\<close> of strings is kept as a list without repetitions, in insertion order;
  \<open>s.add(x)\<close> is \<open>set_add\<close>. The order in which Python iterates a set is not specified, and
  the one place that reads it (\<open>list(unique_options)\<close>) shuffles the result.
\<close>

definition set_add :: "'a \<Rightarrow> 'a list \<Rightarrow> 'a list" where
  "set_add x s = (if x \<in> set s then s else s @ [x])"

section \<open>The module \<open>random\<close>\<close>

text \<open>
  The generator is a global of the interpreter; here it is the list of the raw draws it
  will produce, consumed from the front (an exhausted list draws \<open>0\<close>).
  \<open>randbelow n\<close> reduces a draw to \<open>0 .. n - 1\<close>; \<open>random.choice(seq)\<close> is
  \<open>seq[randbelow(len(seq))]\<close> and raises \<open>IndexError\<close> on an empty sequence;
  \<open>random.shuffle(x)\<close> is CPython's loop
  \<^verbatim>\<open>for i in reversed(range(1, len(x))): j = randbelow(i + 1); x[i], x[j] = x[j], x[i]\<close>.
\<close>

type_synonym rng = "nat list"

fun randbelow :: "nat \<Rightarrow> rng \<Rightarrow> nat \<times> rng" where
  "randbelow n [] = (0, [])"
| "randbelow n (r # rs) = (r mod n, rs)"

definition choice :: "'a list \<Rightarrow> rng \<Rightarrow> error + ('a \<times> rng)" where
  "choice seq r =
     (if seq = [] then Inl IndexError
      else (case randbelow (length seq) r of (i, r') \<Rightarrow> Inr (seq ! i, r')))"

fun shuffle_from :: "nat \<Rightarrow> 'a list \<Rightarrow> rng \<Rightarrow> 'a list \<times> rng" where
  "shuffle_from 0 x r = (x, r)"
| "shuffle_from (Suc i) x r =
     (case randbelow (Suc i + 1) r of
        (j, r') \<Rightarrow> shuffle_from i (x[Suc i := x ! j, j := x ! Suc i]) r')"

definition shuffle :: "'a list \<Rightarrow> rng \<Rightarrow> 'a list \<times> rng" where
  "shuffle x r = shuffle_from (length x - 1) x r"

section \<open>The database (\<open>setup_db.py\<close>)\<close>

text \<open>
  One record per mapped class, one field per column (prefixed, since several tables have
  a \<open>category\<close> and a \<open>level\<close>). Nullable columns have option types. A table is the list of
  its rows; \<open>user_words_seq\<close> is the sequence behind the autoincremented primary key of
  \<open>user_words\<close>. The store is a keyed record store with queries by filter, inserts and
  deletes; the limits of the database engine (the widths of the string columns, the range
  of the integers) and its failures are outside the model.
\<close>

record user =
  u_id :: int
  u_chat_id :: int
  u_username :: "string option"

record user_word =
  uw_id :: int
  uw_user_id :: int
  uw_word :: string
  uw_translation :: string
  uw_category :: string
  uw_level :: int
  uw_is_custom :: bool

record user_state =
  us_id :: int
  us_user_id :: int
  us_level :: "int option"
  us_category :: "string option"

record database =
  users :: "user list"
  user_states :: "user_state list"
  user_words :: "user_word list"
  user_words_seq :: int

section \<open>The volatile session (\<open>State\<close>, \<open>state_storage\<close>)\<close>

text \<open>
  The per-chat dictionary \<open>temp_state\<close>: one optional field per key the program ever
  stores (\<open>None\<close>: the key is absent, or holds \<open>None\<close>; the program never tells the two
  apart). \<open>empty_dict\<close> is \<open>{}\<close>.
\<close>

record temp_state =
  ts_recent_words :: "string list option"
  ts_wrong_answers :: "string list option"
  ts_target_word :: "string option"
  ts_translate_word :: "string option"
  ts_action :: "string option"
  ts_category :: "string option"
  ts_level :: "int option"
  ts_russian :: "string option"

definition empty_dict :: temp_state where
  "empty_dict =
     \<lparr>ts_recent_words = None, ts_wrong_answers = None, ts_target_word = None,
      ts_translate_word = None, ts_action = None, ts_category = None, ts_level = None,
      ts_russian = None\<rparr>"

text \<open>Class \<open>State\<close> (main.py 32-49): \<open>users_state\<close> is a dictionary from chat ids.\<close>

definition State_get :: "(int \<rightharpoonup> temp_state) \<Rightarrow> int \<Rightarrow> temp_state option" where
  "State_get users_state chat_id = users_state chat_id"

definition State_set :: "(int \<rightharpoonup> temp_state) \<Rightarrow> int \<Rightarrow> temp_state \<Rightarrow> (int \<rightharpoonup> temp_state)" where
  "State_set users_state chat_id data = users_state(chat_id \<mapsto> data)"

definition State_clear :: "(int \<rightharpoonup> temp_state) \<Rightarrow> int \<Rightarrow> (int \<rightharpoonup> temp_state)" where
  "State_clear users_state chat_id =
     (if users_state chat_id \<noteq> None then users_state(chat_id := None) else users_state)"

text \<open>\<open>state_storage.get(chat_id) or {}\<close>: an absent or an empty dictionary reads as \<open>{}\<close>.\<close>

definition get_or_empty :: "(int \<rightharpoonup> temp_state) \<Rightarrow> int \<Rightarrow> temp_state" where
  "get_or_empty users_state chat_id =
     (case State_get users_state chat_id of None \<Rightarrow> empty_dict | Some d \<Rightarrow> d)"

section \<open>Messages and the state of the process\<close>

text \<open>
  What \<open>bot.send_message\<close> sends, by the place that sends it:
  \<open>NoWordsAvailable\<close> (476), \<open>Card level category translate options\<close> (545-550, the
  options being the first buttons of the keyboard), \<open>EnterRussian\<close> (591),
  \<open>EnterRussianToDelete\<close> (616), \<open>EnterTranslation\<close> (640), \<open>AddDataError\<close> (651),
  \<open>AlreadyExists russian english\<close> (664-667), \<open>AlreadyExistsAfterInsert russian english\<close>
  (683-686: the text sent after an insert also says that the word already exists),
  \<open>Deleted text\<close> (706), \<open>NotFound\<close> (708), \<open>CurrentWordNotFound\<close> (718), \<open>Correct\<close>
  (723), \<open>Incorrect\<close> (728), and the two menus of 752 and 756.
\<close>

datatype reply =
    NoWordsAvailable
  | Card "int option" string string "string list"
  | EnterRussian
  | EnterRussianToDelete
  | EnterTranslation
  | AddDataError
  | AlreadyExists string string
  | AlreadyExistsAfterInsert string string
  | Deleted string
  | NotFound
  | CurrentWordNotFound
  | Correct
  | Incorrect
  | CategoryMenu
  | MainMenu

text \<open>
  Everything a handler reads or writes: the database, \<open>state_storage.users_state\<close>, the
  random generator, and the messages sent so far (with the chat they went to).
  A handler returns \<open>Inr\<close> the new state, or \<open>Inl\<close> the exception it raised with the state
  at that moment.
\<close>

record world =
  db :: database
  users_state :: "int \<rightharpoonup> temp_state"
  random_state :: rng
  sent :: "(int \<times> reply) list"

definition send_message :: "int \<Rightarrow> reply \<Rightarrow> world \<Rightarrow> world" where
  "send_message chat_id m w = w\<lparr>sent := sent w @ [(chat_id, m)]\<rparr>"

section \<open>\<open>get_all_words\<close> (main.py 55-75)\<close>

text \<open>
  \<open>.first()\<close> is the first matching row of the table (\<^const>\<open>find\<close>); \<open>user.id\<close> on a
  missing user raises \<open>AttributeError\<close>. A filter on \<open>None\<close> is \<open>IS NULL\<close> in SQL and
  matches no row of a column that is not nullable, which the comparison of \<open>Some\<close> with
  \<open>None\<close> gives. The category is a \<open>string option\<close> because one caller passes
  \<open>state.category\<close>, a nullable column.
\<close>

definition get_all_words :: "int \<Rightarrow> string option \<Rightarrow> database \<Rightarrow> error + user_word list" where
  "get_all_words chat_id category d =
     (case find (\<lambda>u. u_chat_id u = chat_id) (users d) of
        None \<Rightarrow> Inl AttributeError
      | Some user \<Rightarrow>
          let state = find (\<lambda>s. us_user_id s = u_id user) (user_states d);
              current_level = (case state of None \<Rightarrow> Some 1 | Some s \<Rightarrow> us_level s)
          in Inr (filter (\<lambda>r. uw_user_id r = u_id user \<and> Some (uw_category r) = category
                               \<and> Some (uw_level r) = current_level) (user_words d)))"

section \<open>\<open>create_card\<close> (main.py 466-550)\<close>

text \<open>Lines 489-494: the candidates not shown recently, or all of them.\<close>

definition available_words :: "user_word list \<Rightarrow> string list \<Rightarrow> user_word list" where
  "available_words words recent_words =
     (let available = filter (\<lambda>word. lower (uw_word word) \<notin> set recent_words) words
      in if available = [] then words else available)"

text \<open>
  Lines 497-505: the loop \<open>for word in available_words\<close> appends two more copies of a
  word with a wrong answer to the copy of the list.
\<close>

primrec extend_wrong :: "user_word list \<Rightarrow> string list \<Rightarrow> user_word list \<Rightarrow> user_word list" where
  "extend_wrong [] wrong_answers weighted = weighted"
| "extend_wrong (word # rest) wrong_answers weighted =
     extend_wrong rest wrong_answers
       (if lower (uw_word word) \<in> set wrong_answers then weighted @ [word, word] else weighted)"

definition weighted_words :: "user_word list \<Rightarrow> string list \<Rightarrow> user_word list" where
  "weighted_words available wrong_answers =
     (let weighted = extend_wrong available wrong_answers available
      in if weighted = [] then available else weighted)"

text \<open>Lines 513-516: \<open>recent_words.append(...)\<close>, then \<open>pop(0)\<close> when longer than 3.\<close>

definition push_recent :: "string list \<Rightarrow> string \<Rightarrow> string list" where
  "push_recent recent_words word =
     (let appended = recent_words @ [word]
      in if length appended > 3 then tl appended else appended)"

text \<open>
  Lines 527-529: \<open>while len(unique_options) < 4 and options:
  unique_options.add(options.pop().lower())\<close>; \<open>pop()\<close> takes the last element.
\<close>

function fill_options :: "string list \<Rightarrow> string list \<Rightarrow> string list" where
  "fill_options unique_options options =
     (if length unique_options < 4 \<and> options \<noteq> []
      then fill_options (set_add (lower (last options)) unique_options) (butlast options)
      else unique_options)"
  by pat_completeness auto
termination
  by (relation "measure (\<lambda>(unique_options, options). length options)") auto

text \<open>Lines 524-532: the options of the card.\<close>

definition card_options :: "user_word list \<Rightarrow> string \<Rightarrow> rng \<Rightarrow> string list \<times> rng" where
  "card_options words target_word r =
     (case shuffle (map uw_word (filter (\<lambda>w. lower (uw_word w) \<noteq> lower target_word) words)) r of
        (options, r1) \<Rightarrow> shuffle (fill_options [lower target_word] options) r1)"

definition create_card :: "int \<Rightarrow> string \<Rightarrow> user_word list \<Rightarrow> user_state \<Rightarrow> world
    \<Rightarrow> (error \<times> world) + world" where
  "create_card chat_id category words state w =
     (if words = [] then Inr (send_message chat_id NoWordsAvailable w)
      else
        let temp_state = get_or_empty (users_state w) chat_id;
            recent_words = get_list (ts_recent_words temp_state);
            wrong_answers = get_list (ts_wrong_answers temp_state);
            available = available_words words recent_words;
            weighted = weighted_words available wrong_answers
        in case choice weighted (random_state w) of
             Inl e \<Rightarrow> Inl (e, w)
           | Inr (word, r1) \<Rightarrow>
               let target_word = uw_word word;
                   translate = uw_translation word;
                   temp_state' = temp_state
                     \<lparr>ts_recent_words := Some (push_recent recent_words (lower target_word)),
                      ts_target_word := Some (lower target_word),
                      ts_translate_word := Some (lower translate)\<rparr>
               in case card_options words target_word r1 of
                    (options, r2) \<Rightarrow>
                      Inr (send_message chat_id (Card (us_level state) category translate options)
                            (w\<lparr>users_state := State_set (users_state w) chat_id temp_state',
                               random_state := r2\<rparr>)))"

section \<open>\<open>add_word\<close> and \<open>delete_word\<close> (main.py 575-622)\<close>

text \<open>
  Both handlers look the user and the long-lived state up, return at once when the state
  row is missing or its category is \<open>None\<close> or empty, and otherwise prompt and stage the
  action with the lower-cased category and the level of the row.
\<close>

definition stage_action :: "string \<Rightarrow> reply \<Rightarrow> int \<Rightarrow> world \<Rightarrow> (error \<times> world) + world" where
  "stage_action action_name prompt chat_id w =
     (case find (\<lambda>u. u_chat_id u = chat_id) (users (db w)) of
        None \<Rightarrow> Inl (AttributeError, w)
      | Some user \<Rightarrow>
          (case find (\<lambda>s. us_user_id s = u_id user) (user_states (db w)) of
             None \<Rightarrow> Inr w
           | Some state \<Rightarrow>
               (case us_category state of
                  None \<Rightarrow> Inr w
                | Some category \<Rightarrow>
                    if category = [] then Inr w
                    else
                      let w1 = send_message chat_id prompt w;
                          temp_state = get_or_empty (users_state w1) chat_id;
                          temp_state' = temp_state
                            \<lparr>ts_action := Some action_name,
                             ts_category := Some (lower category),
                             ts_level := us_level state\<rparr>
                      in Inr (w1\<lparr>users_state := State_set (users_state w1) chat_id temp_state'\<rparr>))))"

definition add_word :: "int \<Rightarrow> world \<Rightarrow> (error \<times> world) + world" where
  "add_word chat_id w = stage_action ''add_word'' EnterRussian chat_id w"

definition delete_word :: "int \<Rightarrow> world \<Rightarrow> (error \<times> world) + world" where
  "delete_word chat_id w = stage_action ''delete_word'' EnterRussianToDelete chat_id w"

text \<open>
  The long-lived states the program writes. \<open>start\<close> creates a row with neither level nor
  category (main.py 141); \<open>select_level\<close> creates a row with a level and no category (343)
  or replaces the level of a row by another integer (346); the category is written at one
  place only, in \<open>select_category\<close> (453), a handler that runs only for a message of
  which \<open>is_valid_category\<close> holds, and that needs a level (417). No handler removes a
  level. So in every state of the database the program reaches, a row without a level has
  no category.
\<close>

definition category_needs_level :: "database \<Rightarrow> bool" where
  "category_needs_level d =
     list_all (\<lambda>s. us_level s \<noteq> None \<or> us_category s = None) (user_states d)"

section \<open>\<open>process_word_actions\<close> (main.py 625-738)\<close>

text \<open>
  The three lines that end every committed add and delete (669-671, 688-690, 710-712):
  query the words of the category, create a card, clear the session of the chat.
\<close>

definition new_card_then_clear :: "int \<Rightarrow> string \<Rightarrow> user_state \<Rightarrow> world \<Rightarrow> (error \<times> world) + world" where
  "new_card_then_clear chat_id category state w =
     (case get_all_words chat_id (Some category) (db w) of
        Inl e \<Rightarrow> Inl (e, w)
      | Inr words \<Rightarrow>
          (case create_card chat_id category words state w of
             Inl ew \<Rightarrow> Inl ew
           | Inr w' \<Rightarrow> Inr (w'\<lparr>users_state := State_clear (users_state w') chat_id\<rparr>)))"

text \<open>
  Lines 644-690. \<open>temp_state\<close> is the dictionary \<open>handle_text\<close> read with
  \<open>state_storage.get(chat_id) or {}\<close>; in this branch it holds an action, so it is not a
  fresh \<open>{}\<close> but the stored object itself, and \<open>temp_state.pop("russian", None)\<close> changes
  the stored dictionary in place: the model stores the popped dictionary.
\<close>

definition existing_word :: "user \<Rightarrow> string \<Rightarrow> string \<Rightarrow> string \<Rightarrow> int \<Rightarrow> database \<Rightarrow> user_word option" where
  "existing_word user english russian category level d =
     find (\<lambda>r. uw_user_id r = u_id user \<and> uw_word r = lower english
                \<and> uw_translation r = lower russian \<and> uw_category r = lower category
                \<and> uw_level r = level) (user_words d)"

text \<open>
  \<open>UserWord(user_id=..., word=..., translation=..., category=..., level=...)\<close>, added and
  committed: the id comes from the sequence, and \<open>is_custom\<close>, which the constructor call
  does not give, gets the column's \<open>default=False\<close>.
\<close>

definition insert_user_word :: "user \<Rightarrow> string \<Rightarrow> string \<Rightarrow> string \<Rightarrow> int \<Rightarrow> database \<Rightarrow> database" where
  "insert_user_word user english russian category level d =
     d\<lparr>user_words := user_words d @
          [\<lparr>uw_id = user_words_seq d, uw_user_id = u_id user, uw_word = lower english,
            uw_translation = lower russian, uw_category = lower category, uw_level = level,
            uw_is_custom = False\<rparr>],
       user_words_seq := user_words_seq d + 1\<rparr>"

definition add_translation :: "int \<Rightarrow> string \<Rightarrow> user \<Rightarrow> user_state \<Rightarrow> temp_state \<Rightarrow> world
    \<Rightarrow> (error \<times> world) + world" where
  "add_translation chat_id text user state temp_state w =
     (let russian = ts_russian temp_state;
          w1 = w\<lparr>users_state := State_set (users_state w) chat_id (temp_state\<lparr>ts_russian := None\<rparr>)\<rparr>;
          english = text;
          category = ts_category temp_state;
          level = ts_level temp_state
      in if falsy_str russian \<or> falsy_str category \<or> falsy_int level
         then Inr (send_message chat_id AddDataError w1)
         else
           (case (russian, category, level) of
              (Some ru, Some cat, Some lvl) \<Rightarrow>
                (case existing_word user english ru cat lvl (db w1) of
                   Some _ \<Rightarrow>
                     new_card_then_clear chat_id cat state
                       (send_message chat_id (AlreadyExists ru english) w1)
                 | None \<Rightarrow>
                     new_card_then_clear chat_id cat state
                       (send_message chat_id (AlreadyExistsAfterInsert ru english)
                          (w1\<lparr>db := insert_user_word user english ru cat lvl (db w1)\<rparr>)))
            | _ \<Rightarrow> Inr (send_message chat_id AddDataError w1)))"

text \<open>
  Lines 691-712. \<open>category.lower()\<close> raises \<open>AttributeError\<close> when no category is staged.
  \<open>db.delete(word_to_delete)\<close> deletes the row with the primary key of the row found.
\<close>

definition word_to_delete :: "user \<Rightarrow> string \<Rightarrow> string \<Rightarrow> int option \<Rightarrow> database \<Rightarrow> user_word option" where
  "word_to_delete user text category level d =
     find (\<lambda>r. uw_user_id r = u_id user \<and> uw_translation r = text
                \<and> uw_category r = lower category \<and> Some (uw_level r) = level) (user_words d)"

definition delete_row :: "user_word \<Rightarrow> database \<Rightarrow> database" where
  "delete_row row d = d\<lparr>user_words := filter (\<lambda>r. uw_id r \<noteq> uw_id row) (user_words d)\<rparr>"

definition delete_translation :: "int \<Rightarrow> string \<Rightarrow> user \<Rightarrow> user_state \<Rightarrow> temp_state \<Rightarrow> world
    \<Rightarrow> (error \<times> world) + world" where
  "delete_translation chat_id text user state temp_state w =
     (case ts_category temp_state of
        None \<Rightarrow> Inl (AttributeError, w)
      | Some category \<Rightarrow>
          (case word_to_delete user text category (ts_level temp_state) (db w) of
             Some row \<Rightarrow>
               new_card_then_clear chat_id category state
                 (send_message chat_id (Deleted text) (w\<lparr>db := delete_row row (db w)\<rparr>))
           | None \<Rightarrow>
               new_card_then_clear chat_id category state (send_message chat_id NotFound w)))"

text \<open>
  Lines 713-736. \<open>get_all_words(chat_id, state.category)\<close> with \<open>state.category = None\<close>
  finds no word, and \<open>create_card\<close> returns at its first test before it reads the
  category; the empty string stands for that category.
\<close>

definition check_answer :: "int \<Rightarrow> string \<Rightarrow> user \<Rightarrow> user_state \<Rightarrow> temp_state \<Rightarrow> world
    \<Rightarrow> (error \<times> world) + world" where
  "check_answer chat_id text user state temp_state w =
     (case ts_target_word temp_state of
        None \<Rightarrow> Inr (send_message chat_id CurrentWordNotFound w)
      | Some target_word \<Rightarrow>
          if target_word = [] then Inr (send_message chat_id CurrentWordNotFound w)
          else if text = target_word then
            (let w1 = send_message chat_id Correct w
             in case get_all_words chat_id (us_category state) (db w1) of
                  Inl e \<Rightarrow> Inl (e, w1)
                | Inr words \<Rightarrow>
                    create_card chat_id (case us_category state of None \<Rightarrow> [] | Some c \<Rightarrow> c)
                      words state w1)
          else
            (let w1 = send_message chat_id Incorrect w;
                 wrong_answers = get_list (ts_wrong_answers temp_state);
                 wrong_answers' = (if target_word \<in> set wrong_answers then wrong_answers
                                   else wrong_answers @ [target_word])
             in Inr (w1\<lparr>users_state := State_set (users_state w1) chat_id
                                         (temp_state\<lparr>ts_wrong_answers := Some wrong_answers'\<rparr>)\<rparr>)))"

definition process_word_actions :: "int \<Rightarrow> string \<Rightarrow> user \<Rightarrow> user_state \<Rightarrow> temp_state \<Rightarrow> world
    \<Rightarrow> (error \<times> world) + world" where
  "process_word_actions chat_id message_text user state temp_state w =
     (let text = lower message_text
      in if ts_action temp_state = Some ''add_word'' then
           (let w1 = send_message chat_id EnterTranslation w
            in Inr (w1\<lparr>users_state := State_set (users_state w1) chat_id
                         (temp_state\<lparr>ts_russian := Some text,
                                     ts_action := Some ''add_translation''\<rparr>)\<rparr>))
         else if ts_action temp_state = Some ''add_translation'' then
           add_translation chat_id text user state temp_state w
         else if ts_action temp_state = Some ''delete_word'' then
           delete_translation chat_id text user state temp_state w
         else check_answer chat_id text user state temp_state w)"

section \<open>\<open>handle_text\<close> (main.py 741-786)\<close>

text \<open>
  The texts of the two navigation buttons (transliterated); the menus they open only send
  a message: the main menu, or the category menu when a level is selected.
\<close>

definition SELECT_CATEGORY :: string where
  "SELECT_CATEGORY = ''Vybrat kategoriyu''"

definition SELECT_LEVEL :: string where
  "SELECT_LEVEL = ''Vybrat uroven''"

definition handle_text :: "int \<Rightarrow> string \<Rightarrow> world \<Rightarrow> (error \<times> world) + world" where
  "handle_text chat_id message_text w =
     (case find (\<lambda>u. u_chat_id u = chat_id) (users (db w)) of
        None \<Rightarrow> Inl (AttributeError, w)
      | Some user \<Rightarrow>
          (case find (\<lambda>s. us_user_id s = u_id user) (user_states (db w)) of
             None \<Rightarrow> Inr w
           | Some state \<Rightarrow>
               if message_text = SELECT_CATEGORY then
                 Inr (send_message chat_id
                        (if falsy_int (us_level state) then MainMenu else CategoryMenu) w)
               else if message_text = SELECT_LEVEL then Inr (send_message chat_id MainMenu w)
               else process_word_actions chat_id message_text user state
                      (get_or_empty (users_state w) chat_id) w))"

section \<open>Observations\<close>

text \<open>
  The state a handler leaves, whether it returned or raised, and the exception if it
  raised.
\<close>

definition final :: "(error \<times> world) + world \<Rightarrow> world" where
  "final res = (case res of Inl (e, w) \<Rightarrow> w | Inr w \<Rightarrow> w)"

definition raised :: "(error \<times> world) + world \<Rightarrow> error option" where
  "raised res = (case res of Inl (e, w) \<Rightarrow> Some e | Inr w \<Rightarrow> None)"

text \<open>The session of a chat, as every handler reads it.\<close>

abbreviation session :: "world \<Rightarrow> int \<Rightarrow> temp_state" where
  "session w chat_id \<equiv> get_or_empty (users_state w) chat_id"

text \<open>The pool \<open>create_card\<close> draws the target from, for a candidate list and a session.\<close>

abbreviation card_pool :: "user_word list \<Rightarrow> temp_state \<Rightarrow> user_word list" where
  "card_pool words temp_state \<equiv>
     weighted_words (available_words words (get_list (ts_recent_words temp_state)))
       (get_list (ts_wrong_answers temp_state))"

section \<open>Runs of card renders, and the chance of a choice\<close>

text \<open>
  Cards rendered one after the other for a chat, each with its category, candidate list
  and long-lived state. The run also returns the target word that every render with
  candidates stored in the session, in order.
\<close>

fun render_cards :: "int \<Rightarrow> (string \<times> user_word list \<times> user_state) list \<Rightarrow> world
    \<Rightarrow> (error \<times> world) + (string list \<times> world)" where
  "render_cards chat_id [] w = Inr ([], w)"
| "render_cards chat_id ((category, words, state) # rest) w =
     (case create_card chat_id category words state w of
        Inl ew \<Rightarrow> Inl ew
      | Inr w1 \<Rightarrow>
          (case render_cards chat_id rest w1 of
             Inl ew \<Rightarrow> Inl ew
           | Inr (shown, w2) \<Rightarrow>
               Inr ((if words = [] then []
                     else (case ts_target_word (session w1 chat_id) of
                             None \<Rightarrow> [] | Some t \<Rightarrow> [t])) @ shown, w2)))"

text \<open>
  \<open>randbelow(len(seq))\<close> is uniform on \<open>0 .. len(seq) - 1\<close>, so the probability that
  \<open>random.choice(seq)\<close> returns an element with the property \<open>P\<close> is the share of these
  draws for which \<open>choice\<close> returns one.
\<close>

definition choice_prob :: "'a list \<Rightarrow> ('a \<Rightarrow> bool) \<Rightarrow> real" where
  "choice_prob seq P =
     real (length (filter (\<lambda>k. case choice seq [k] of Inl e \<Rightarrow> False | Inr (x, r) \<Rightarrow> P x)
                     [0..<length seq]))
     / real (length seq)"

section \<open>Example data\<close>

text \<open>
  A user with the three level 1 words of the category "numbers" that
  \<open>populate_default_words\<close> loads (category and translations transliterated).
\<close>

definition vasya :: user where
  "vasya = \<lparr>u_id = 1, u_chat_id = 100, u_username = None\<rparr>"

definition numbers :: "user_word list" where
  "numbers =
     [\<lparr>uw_id = 1, uw_user_id = 1, uw_word = ''one'', uw_translation = ''odin'',
       uw_category = ''chisla'', uw_level = 1, uw_is_custom = False\<rparr>,
      \<lparr>uw_id = 2, uw_user_id = 1, uw_word = ''two'', uw_translation = ''dva'',
       uw_category = ''chisla'', uw_level = 1, uw_is_custom = False\<rparr>,
      \<lparr>uw_id = 3, uw_user_id = 1, uw_word = ''three'', uw_translation = ''tri'',
       uw_category = ''chisla'', uw_level = 1, uw_is_custom = False\<rparr>]"

definition level1_numbers :: user_state where
  "level1_numbers = \<lparr>us_id = 1, us_user_id = 1, us_level = Some 1, us_category = Some ''chisla''\<rparr>"

definition numbers_db :: database where
  "numbers_db = \<lparr>users = [vasya], user_states = [level1_numbers], user_words = numbers,
                  user_words_seq = 4\<rparr>"

text \<open>The session of the scenario: "two" was shown recently, "three" was answered wrongly.\<close>

definition two_recent_three_wrong :: temp_state where
  "two_recent_three_wrong =
     empty_dict\<lparr>ts_recent_words := Some [''two''], ts_wrong_answers := Some [''three'']\<rparr>"

text \<open>A process with this database, given sessions and given draws, that has sent nothing.\<close>

definition numbers_world :: "(int \<rightharpoonup> temp_state) \<Rightarrow> rng \<Rightarrow> world" where
  "numbers_world sessions draws =
     \<lparr>db = numbers_db, users_state = sessions, random_state = draws, sent = []\<rparr>"

text \<open>
  The same user with another long-lived state or other words: after "Level 2" (where the
  category has no words), with the state row as \<open>start\<close> creates it (no level, no
  category), and after "Level 1" before any category was chosen.
\<close>

definition level2_numbers :: user_state where
  "level2_numbers = \<lparr>us_id = 1, us_user_id = 1, us_level = Some 2, us_category = Some ''chisla''\<rparr>"



definition vasya_world :: "user_state \<Rightarrow> user_word list \<Rightarrow> (int \<rightharpoonup> temp_state) \<Rightarrow> rng \<Rightarrow> world" where
  "vasya_world state rows sessions draws =
     \<lparr>db = \<lparr>users = [vasya], user_states = [state], user_words = rows, user_words_seq = 4\<rparr>,
      users_state = sessions, random_state = draws, sent = []\<rparr>"

text \<open>
  Sessions: a card for "one" is open; "stol" was entered after "add word" and its
  translation is awaited; "delete word" was pressed.
\<close>

definition card_one_open :: temp_state where
  "card_one_open =
     empty_dict\<lparr>ts_recent_words := Some [''one''], ts_target_word := Some ''one'',
                ts_translate_word := Some ''odin''\<rparr>"

definition adding_stol :: temp_state where
  "adding_stol =
     empty_dict\<lparr>ts_action := Some ''add_translation'', ts_category := Some ''chisla'',
                ts_level := Some 1, ts_russian := Some ''stol''\<rparr>"

definition deleting :: temp_state where
  "deleting =
     empty_dict\<lparr>ts_action := Some ''delete_word'', ts_category := Some ''chisla'',
                ts_level := Some 1\<rparr>"

section \<open>Lower-casing, the random module, the pool and the options\<close>

lemma lower_char_idem: "lower_char (lower_char c) = lower_char c"
  unfolding lower_char_def by simp

lemma lower_lower: "lower (lower s) = lower s"
  by (simp add: lower_def lower_char_idem)

lemma randbelow_less: "0 < n \<Longrightarrow> fst (randbelow n r) < n"
  by (cases r) simp_all

lemma choice_nonempty:
  assumes "seq \<noteq> []"
  shows "\<exists>i r'. randbelow (length seq) r = (i, r') \<and> i < length seq \<and> choice seq r = Inr (seq ! i, r')"
proof -
  obtain i r' where ir: "randbelow (length seq) r = (i, r')" by (cases "randbelow (length seq) r")
  have "fst (randbelow (length seq) r) < length seq" using assms by (intro randbelow_less) simp
  with ir have "i < length seq" by simp
  with ir assms show ?thesis by (simp add: choice_def)
qed

lemma choice_draw: "k < length seq \<Longrightarrow> choice seq (k # rs) = Inr (seq ! k, rs)"
  by (auto simp: choice_def)

lemma mset_shuffle_from: "i < length x \<Longrightarrow> mset (fst (shuffle_from i x r)) = mset x"
proof (induction i arbitrary: x r)
  case 0
  then show ?case by simp
next
  case (Suc i)
  obtain j r' where jr: "randbelow (Suc i + 1) r = (j, r')" by (cases "randbelow (Suc i + 1) r")
  have "fst (randbelow (Suc i + 1) r) < Suc i + 1" by (intro randbelow_less) simp
  with jr have j: "j < length x" using Suc.prems by simp
  have "mset (x[Suc i := x ! j, j := x ! Suc i]) = mset x"
    using Suc.prems j by (simp add: mset_swap)
  moreover have "i < length (x[Suc i := x ! j, j := x ! Suc i])" using Suc.prems by simp
  ultimately show ?case using Suc.IH[of "x[Suc i := x ! j, j := x ! Suc i]" r'] jr by simp
qed

lemma mset_shuffle: "mset (fst (shuffle x r)) = mset x"
proof (cases "x = []")
  case True
  then show ?thesis by (simp add: shuffle_def)
next
  case False
  then have "length x - 1 < length x" by (cases x) simp_all
  then show ?thesis unfolding shuffle_def by (rule mset_shuffle_from)
qed

lemma set_shuffle: "set (fst (shuffle x r)) = set x"
  using mset_shuffle[of x r] by (metis set_mset_mset)

lemma length_shuffle: "length (fst (shuffle x r)) = length x"
  using mset_shuffle[of x r] by (metis size_mset)

lemma distinct_shuffle: "distinct (fst (shuffle x r)) = distinct x"
  using mset_shuffle[of x r] by (metis mset_eq_imp_distinct_iff)

lemma count_list_shuffle: "count_list (fst (shuffle x r)) a = count_list x a"
  using mset_shuffle[of x r] by (metis mset_eq_length_filter)

lemma available_words_cases:
  "available_words words recent_words =
     (if \<forall>word\<in>set words. lower (uw_word word) \<in> set recent_words then words
      else filter (\<lambda>word. lower (uw_word word) \<notin> set recent_words) words)"
  by (auto simp: available_words_def Let_def filter_empty_conv)

lemma available_words_nonempty: "words \<noteq> [] \<Longrightarrow> available_words words recent_words \<noteq> []"
  by (auto simp: available_words_def Let_def)

lemma available_words_subset: "set (available_words words recent_words) \<subseteq> set words"
  by (auto simp: available_words_def Let_def)

lemma extend_wrong_eq:
  "extend_wrong xs wrong weighted =
     weighted @ concat (map (\<lambda>word. if lower (uw_word word) \<in> set wrong then [word, word] else []) xs)"
  by (induction xs arbitrary: weighted) auto

lemma weighted_words_eq:
  "weighted_words available wrong =
     available @ concat (map (\<lambda>word. if lower (uw_word word) \<in> set wrong then [word, word] else []) available)"
  by (auto simp: weighted_words_def Let_def extend_wrong_eq)

lemma count_list_extra:
  "count_list (concat (map (\<lambda>word. if lower (uw_word word) \<in> set wrong then [word, word] else []) xs)) x =
     (if lower (uw_word x) \<in> set wrong then 2 * count_list xs x else 0)"
  by (induction xs) auto

lemma count_list_weighted_words:
  "count_list (weighted_words available wrong) x =
     count_list available x * (if lower (uw_word x) \<in> set wrong then 3 else 1)"
  by (simp add: weighted_words_eq count_list_extra)

lemma set_weighted_words: "set (weighted_words available wrong) = set available"
  by (auto simp: weighted_words_eq split: if_splits)

lemma weighted_words_nonempty: "available \<noteq> [] \<Longrightarrow> weighted_words available wrong \<noteq> []"
  by (simp add: weighted_words_eq)


lemma set_set_add: "set (set_add x s) = insert x (set s)"
  by (auto simp: set_add_def)

lemma distinct_set_add: "distinct s \<Longrightarrow> distinct (set_add x s)"
  by (auto simp: set_add_def)

lemma length_set_add_le: "length s < 4 \<Longrightarrow> length (set_add x s) \<le> 4"
  by (auto simp: set_add_def)

declare fill_options.simps [simp del]

lemma fill_options_distinct: "distinct u \<Longrightarrow> distinct (fill_options u opts)"
proof (induction u opts rule: fill_options.induct)
  case (1 u opts)
  show ?case
  proof (cases "length u < 4 \<and> opts \<noteq> []")
    case True
    then show ?thesis
      using 1 by (subst fill_options.simps) (simp add: distinct_set_add)
  next
    case False
    then show ?thesis using 1 by (subst fill_options.simps) auto
  qed
qed

lemma fill_options_keeps: "set u \<subseteq> set (fill_options u opts)"
proof (induction u opts rule: fill_options.induct)
  case (1 u opts)
  show ?case
  proof (cases "length u < 4 \<and> opts \<noteq> []")
    case True
    then have "set (set_add (lower (last opts)) u) \<subseteq> set (fill_options u opts)"
      using 1 by (subst fill_options.simps) simp
    then show ?thesis by (auto simp: set_set_add)
  next
    case False
    then show ?thesis by (subst fill_options.simps) auto
  qed
qed

lemma fill_options_subset: "set (fill_options u opts) \<subseteq> set u \<union> lower ` set opts"
proof (induction u opts rule: fill_options.induct)
  case (1 u opts)
  show ?case
  proof (cases "length u < 4 \<and> opts \<noteq> []")
    case True
    then have eq: "fill_options u opts = fill_options (set_add (lower (last opts)) u) (butlast opts)"
      by (subst fill_options.simps) simp
    have "set (butlast opts) \<subseteq> set opts" by (meson in_set_butlastD subsetI)
    moreover have "last opts \<in> set opts" using True by simp
    ultimately show ?thesis using 1[OF True] unfolding eq by (auto simp: set_set_add)
  next
    case False
    then show ?thesis by (subst fill_options.simps) auto
  qed
qed

lemma fill_options_length:
  "distinct u \<Longrightarrow> length u \<le> 4 \<Longrightarrow>
     length (fill_options u opts) = min 4 (card (set u \<union> lower ` set opts))"
proof (induction u opts rule: fill_options.induct)
  case (1 u opts)
  show ?case
  proof (cases "length u < 4 \<and> opts \<noteq> []")
    case True
    then have eq: "fill_options u opts = fill_options (set_add (lower (last opts)) u) (butlast opts)"
      by (subst fill_options.simps) simp
    have "opts = butlast opts @ [last opts]" using True by simp
    then have "set opts = insert (last opts) (set (butlast opts))"
      by (metis Un_insert_right append_Nil2 list.simps(15) set_append)
    then have "set (set_add (lower (last opts)) u) \<union> lower ` set (butlast opts) = set u \<union> lower ` set opts"
      by (auto simp: set_set_add)
    then show ?thesis
      using 1(1)[OF True distinct_set_add[OF 1(2)] length_set_add_le] True unfolding eq by simp
  next
    case False
    then have eq: "fill_options u opts = u" by (subst fill_options.simps) auto
    show ?thesis
    proof (cases "opts = []")
      case True
      then show ?thesis using 1(2,3) unfolding eq by (simp add: distinct_card)
    next
      case False
      with \<open>\<not> (length u < 4 \<and> opts \<noteq> [])\<close> 1(3) have "length u = 4" by simp
      then have "card (set u) = 4" using 1(2) by (simp add: distinct_card)
      moreover have "card (set u) \<le> card (set u \<union> lower ` set opts)"
        by (intro card_mono) auto
      ultimately show ?thesis unfolding eq using \<open>length u = 4\<close> by simp
    qed
  qed
qed

lemma card_options_props:
  assumes "card_options words target_word r = (options, r2)"
  shows "distinct options"
    and "lower target_word \<in> set options"
    and "set options \<subseteq> insert (lower target_word) (lower ` uw_word ` set words)"
    and "length options = min 4 (card (insert (lower target_word) (lower ` uw_word ` set words)))"
proof -
  define others where "others = map uw_word (filter (\<lambda>w. lower (uw_word w) \<noteq> lower target_word) words)"
  obtain sh r1 where sh: "shuffle others r = (sh, r1)" by (cases "shuffle others r")
  have set_sh: "set sh = set others" using set_shuffle[of others r] sh by simp
  define u where "u = fill_options [lower target_word] sh"
  have opts: "options = fst (shuffle u r1)"
    using assms sh by (simp add: card_options_def others_def u_def)
  have du: "distinct u" unfolding u_def by (rule fill_options_distinct) simp
  have lower_others: "insert (lower target_word) (lower ` set others)
      = insert (lower target_word) (lower ` uw_word ` set words)"
    by (auto simp: others_def)
  show "distinct options" using du by (simp add: opts distinct_shuffle)
  show "lower target_word \<in> set options"
    using fill_options_keeps[of "[lower target_word]" sh] by (auto simp: opts set_shuffle u_def)
  show "set options \<subseteq> insert (lower target_word) (lower ` uw_word ` set words)"
    using fill_options_subset[of "[lower target_word]" sh] lower_others
    by (auto simp: opts set_shuffle u_def set_sh)
  have "length u = min 4 (card (set [lower target_word] \<union> lower ` set sh))"
    unfolding u_def by (rule fill_options_length) simp_all
  then show "length options = min 4 (card (insert (lower target_word) (lower ` uw_word ` set words)))"
    using lower_others by (simp add: opts length_shuffle set_sh)
qed

section \<open>What a card render does\<close>

lemma create_card_nonempty:
  assumes "words \<noteq> []"
  shows "\<exists>i r1 options r2.
           randbelow (length (card_pool words (session w chat_id))) (random_state w) = (i, r1)
         \<and> i < length (card_pool words (session w chat_id))
         \<and> card_options words (uw_word (card_pool words (session w chat_id) ! i)) r1 = (options, r2)
         \<and> create_card chat_id category words state w =
             Inr (w\<lparr>users_state := (users_state w)(chat_id \<mapsto> (session w chat_id)
                        \<lparr>ts_recent_words := Some (push_recent (get_list (ts_recent_words (session w chat_id)))
                            (lower (uw_word (card_pool words (session w chat_id) ! i)))),
                         ts_target_word := Some (lower (uw_word (card_pool words (session w chat_id) ! i))),
                         ts_translate_word := Some (lower (uw_translation (card_pool words (session w chat_id) ! i)))\<rparr>),
                    random_state := r2,
                    sent := sent w @ [(chat_id, Card (us_level state) category
                       (uw_translation (card_pool words (session w chat_id) ! i)) options)]\<rparr>)"
proof -
  define pool where "pool = card_pool words (session w chat_id)"
  have ne: "pool \<noteq> []"
    unfolding pool_def using assms by (intro weighted_words_nonempty available_words_nonempty)
  from choice_nonempty[OF ne, of "random_state w"] obtain i r1 where
    i: "randbelow (length pool) (random_state w) = (i, r1)" "i < length pool"
       "choice pool (random_state w) = Inr (pool ! i, r1)" by blast
  obtain options r2 where o: "card_options words (uw_word (pool ! i)) r1 = (options, r2)"
    by (cases "card_options words (uw_word (pool ! i)) r1")
  have "create_card chat_id category words state w =
             Inr (w\<lparr>users_state := (users_state w)(chat_id \<mapsto> (session w chat_id)
                        \<lparr>ts_recent_words := Some (push_recent (get_list (ts_recent_words (session w chat_id)))
                            (lower (uw_word (pool ! i)))),
                         ts_target_word := Some (lower (uw_word (pool ! i))),
                         ts_translate_word := Some (lower (uw_translation (pool ! i)))\<rparr>),
                    random_state := r2,
                    sent := sent w @ [(chat_id, Card (us_level state) category
                       (uw_translation (pool ! i)) options)]\<rparr>)"
    using assms i(3) o
    by (simp add: create_card_def Let_def pool_def[symmetric] send_message_def State_set_def)
  with i(1,2) o show ?thesis unfolding pool_def by blast
qed

text \<open>What a render with candidates leaves, in the terms the theorems use.\<close>

lemma create_card_render:
  assumes "words \<noteq> []"
  shows "\<exists>word options.
           word \<in> set (card_pool words (session w chat_id))
         \<and> word = card_pool words (session w chat_id)
                    ! fst (randbelow (length (card_pool words (session w chat_id))) (random_state w))
         \<and> distinct options
         \<and> lower (uw_word word) \<in> set options
         \<and> set options \<subseteq> lower ` uw_word ` set words
         \<and> length options = min 4 (card (lower ` uw_word ` set words))
         \<and> raised (create_card chat_id category words state w) = None
         \<and> db (final (create_card chat_id category words state w)) = db w
         \<and> sent (final (create_card chat_id category words state w)) =
             sent w @ [(chat_id, Card (us_level state) category (uw_translation word) options)]
         \<and> users_state (final (create_card chat_id category words state w)) =
             (users_state w)(chat_id \<mapsto> (session w chat_id)
                \<lparr>ts_recent_words :=
                   Some (push_recent (get_list (ts_recent_words (session w chat_id))) (lower (uw_word word))),
                 ts_target_word := Some (lower (uw_word word)),
                 ts_translate_word := Some (lower (uw_translation word))\<rparr>)"
proof -
  define pool where "pool = card_pool words (session w chat_id)"
  from create_card_nonempty[OF assms, of w chat_id category state] obtain i r1 options r2 where
    h: "randbelow (length pool) (random_state w) = (i, r1)" "i < length pool"
       "card_options words (uw_word (pool ! i)) r1 = (options, r2)"
       "create_card chat_id category words state w =
             Inr (w\<lparr>users_state := (users_state w)(chat_id \<mapsto> (session w chat_id)
                        \<lparr>ts_recent_words := Some (push_recent (get_list (ts_recent_words (session w chat_id)))
                            (lower (uw_word (pool ! i)))),
                         ts_target_word := Some (lower (uw_word (pool ! i))),
                         ts_translate_word := Some (lower (uw_translation (pool ! i)))\<rparr>),
                    random_state := r2,
                    sent := sent w @ [(chat_id, Card (us_level state) category
                       (uw_translation (pool ! i)) options)]\<rparr>)"
    unfolding pool_def by blast
  have mem: "pool ! i \<in> set pool" using h(2) by simp
  have "set pool \<subseteq> set words"
    unfolding pool_def using available_words_subset by (simp add: set_weighted_words)
  with mem have "pool ! i \<in> set words" by blast
  then have ins: "insert (lower (uw_word (pool ! i))) (lower ` uw_word ` set words) = lower ` uw_word ` set words"
    by blast
  note props = card_options_props[OF h(3), unfolded ins]
  show ?thesis
    apply (rule exI[of _ "pool ! i"], rule exI[of _ options])
    using mem props h(1) by (simp add: h(4) final_def raised_def pool_def[symmetric])
qed

section \<open>The weighted pool\<close>

lemma session_upd [simp]: "get_or_empty (m(chat_id \<mapsto> d)) chat_id = d"
  by (simp add: get_or_empty_def State_get_def)

lemma choice_prob_eq:
  "choice_prob seq P = real (length (filter P seq)) / real (length seq)"
proof -
  have "filter (\<lambda>k. case choice seq [k] of Inl e \<Rightarrow> False | Inr (x, r) \<Rightarrow> P x) [0..<length seq]
        = filter (\<lambda>k. P (seq ! k)) [0..<length seq]"
    by (rule filter_cong) (auto simp: choice_draw)
  moreover have "length (filter (\<lambda>k. P (seq ! k)) [0..<length seq]) = length (filter P seq)"
  proof -
    have "filter P (map ((!) seq) [0..<length seq]) = map ((!) seq) (filter (P \<circ> (!) seq) [0..<length seq])"
      by (rule filter_map)
    then have "length (filter P seq) = length (filter (P \<circ> (!) seq) [0..<length seq])"
      by (simp add: map_nth)
    then show ?thesis by (simp add: comp_def)
  qed
  ultimately show ?thesis by (simp add: choice_prob_def)
qed

lemma numbers_pool:
  "card_pool numbers two_recent_three_wrong = [numbers ! 0, numbers ! 2, numbers ! 2, numbers ! 2]"
  by (simp add: numbers_def two_recent_three_wrong_def empty_dict_def get_list_def
      available_words_def weighted_words_def lower_def lower_char_def)

text \<open>
  C1. The pool \<open>create_card\<close> draws from holds every surviving candidate as often as the
  survivors hold it, three times as often when its lower-cased word is among the wrong
  answers (weight 3 against weight 1). The target is the element of the pool at the index
  drawn, so a uniform draw selects each position of the pool equally often, and the chance
  of a property is the share of the pool that has it. For the candidates one, two, three
  with "two" recent and "three" answered wrongly the pool is one, three, three, three:
  three has probability 3/4, one has 1/4, two has 0.
\<close>

theorem weighted_pool_uniform_choice:
  "(\<forall>x. count_list (card_pool words temp_state) x =
          count_list (available_words words (get_list (ts_recent_words temp_state))) x
            * (if lower (uw_word x) \<in> set (get_list (ts_wrong_answers temp_state)) then 3 else 1))
   \<and> (words \<noteq> [] \<longrightarrow> k < length (card_pool words (session w chat_id)) \<longrightarrow> random_state w = k # rs \<longrightarrow>
        ts_target_word (session (final (create_card chat_id category words state w)) chat_id)
          = Some (lower (uw_word (card_pool words (session w chat_id) ! k))))
   \<and> (\<forall>P. choice_prob (card_pool words temp_state) P =
          real (length (filter P (card_pool words temp_state))) / real (length (card_pool words temp_state)))
   \<and> map uw_word (card_pool numbers two_recent_three_wrong) = [''one'', ''three'', ''three'', ''three'']
   \<and> choice_prob (card_pool numbers two_recent_three_wrong) (\<lambda>x. uw_word x = ''three'') = 3 / 4
   \<and> choice_prob (card_pool numbers two_recent_three_wrong) (\<lambda>x. uw_word x = ''one'') = 1 / 4
   \<and> choice_prob (card_pool numbers two_recent_three_wrong) (\<lambda>x. uw_word x = ''two'') = 0"
proof (intro conjI allI impI)
  fix x
  show "count_list (card_pool words temp_state) x =
          count_list (available_words words (get_list (ts_recent_words temp_state))) x
            * (if lower (uw_word x) \<in> set (get_list (ts_wrong_answers temp_state)) then 3 else 1)"
    by (rule count_list_weighted_words)
next
  assume ne: "words \<noteq> []" and k: "k < length (card_pool words (session w chat_id))"
    and r: "random_state w = k # rs"
  from create_card_render[OF ne, of w chat_id category state]
  obtain word and options :: "string list" where
    w: "word = card_pool words (session w chat_id)
                    ! fst (randbelow (length (card_pool words (session w chat_id))) (random_state w))"
    and u: "users_state (final (create_card chat_id category words state w)) =
             (users_state w)(chat_id \<mapsto> (session w chat_id)
                \<lparr>ts_recent_words :=
                   Some (push_recent (get_list (ts_recent_words (session w chat_id))) (lower (uw_word word))),
                 ts_target_word := Some (lower (uw_word word)),
                 ts_translate_word := Some (lower (uw_translation word))\<rparr>)"
    by blast
  have "word = card_pool words (session w chat_id) ! k" using w k r by simp
  then show "ts_target_word (session (final (create_card chat_id category words state w)) chat_id)
          = Some (lower (uw_word (card_pool words (session w chat_id) ! k)))"
    by (simp add: u)
next
  fix P
  show "choice_prob (card_pool words temp_state) P =
          real (length (filter P (card_pool words temp_state))) / real (length (card_pool words temp_state))"
    by (rule choice_prob_eq)
next
  show "map uw_word (card_pool numbers two_recent_three_wrong) = [''one'', ''three'', ''three'', ''three'']"
    by (simp add: numbers_pool) (simp add: numbers_def)
next
  show "choice_prob (card_pool numbers two_recent_three_wrong) (\<lambda>x. uw_word x = ''three'') = 3 / 4"
    by (simp add: choice_prob_eq numbers_pool) (simp add: numbers_def)
next
  show "choice_prob (card_pool numbers two_recent_three_wrong) (\<lambda>x. uw_word x = ''one'') = 1 / 4"
    by (simp add: choice_prob_eq numbers_pool) (simp add: numbers_def)
next
  show "choice_prob (card_pool numbers two_recent_three_wrong) (\<lambda>x. uw_word x = ''two'') = 0"
    by (simp add: choice_prob_eq numbers_pool) (simp add: numbers_def)
qed

text \<open>The scenario with the draw 3: the target is "three".\<close>

theorem weighted_pool_uniform_choice_witness:
  "numbers \<noteq> []
   \<and> 3 < length (card_pool numbers (session (numbers_world [100 \<mapsto> two_recent_three_wrong] [3, 0, 0, 0, 0]) 100))
   \<and> random_state (numbers_world [100 \<mapsto> two_recent_three_wrong] [3, 0, 0, 0, 0]) = [3, 0, 0, 0, 0]
   \<and> ts_target_word (session (final (create_card 100 ''chisla'' numbers level1_numbers
         (numbers_world [100 \<mapsto> two_recent_three_wrong] [3, 0, 0, 0, 0]))) 100) = Some ''three''"
proof -
  have s: "session (numbers_world [100 \<mapsto> two_recent_three_wrong] [3, 0, 0, 0, 0]) 100 = two_recent_three_wrong"
    by (simp add: numbers_world_def)
  have ne: "numbers \<noteq> []" by (simp add: numbers_def)
  have k: "3 < length (card_pool numbers (session (numbers_world [100 \<mapsto> two_recent_three_wrong] [3, 0, 0, 0, 0]) 100))"
    by (simp add: s numbers_pool)
  have r: "random_state (numbers_world [100 \<mapsto> two_recent_three_wrong] [3, 0, 0, 0, 0]) = [3, 0, 0, 0, 0]"
    by (simp add: numbers_world_def)
  have t: "lower (uw_word (card_pool numbers two_recent_three_wrong ! 3)) = ''three''"
    by (simp add: numbers_pool) (simp add: numbers_def lower_def lower_char_def)
  from weighted_pool_uniform_choice[of numbers two_recent_three_wrong 3
      "numbers_world [100 \<mapsto> two_recent_three_wrong] [3, 0, 0, 0, 0]" 100 "[0, 0, 0, 0]"
      "''chisla''" level1_numbers] ne k r
  have "ts_target_word (session (final (create_card 100 ''chisla'' numbers level1_numbers
         (numbers_world [100 \<mapsto> two_recent_three_wrong] [3, 0, 0, 0, 0]))) 100)
          = Some (lower (uw_word (card_pool numbers (session (numbers_world [100 \<mapsto> two_recent_three_wrong] [3, 0, 0, 0, 0]) 100) ! 3)))"
    by blast
  with ne k r show ?thesis by (simp add: s t)
qed

section \<open>Recent words and the options of a card\<close>

lemma distinct_count_list_1: "distinct xs \<Longrightarrow> x \<in> set xs \<Longrightarrow> count_list xs x = 1"
  by (induction xs) auto

lemma map_lower_fixed: "set xs \<subseteq> lower ` A \<Longrightarrow> map lower xs = xs"
  by (induction xs) (auto simp: lower_lower)

text \<open>
  C2. With candidates, \<open>create_card\<close> returns, and its target is the lower-cased word of a
  candidate of the restricted list: the candidates whose lower-cased word is not among
  the recent words, or all candidates when that restriction leaves none. So the target is
  not a recent word unless the lower-cased word of every candidate is one.
\<close>

theorem recent_words_excluded:
  assumes "words \<noteq> []"
  shows "\<exists>word.
           word \<in> set (available_words words (get_list (ts_recent_words (session w chat_id))))
         \<and> available_words words (get_list (ts_recent_words (session w chat_id))) =
             (if filter (\<lambda>x. lower (uw_word x) \<notin> set (get_list (ts_recent_words (session w chat_id)))) words = []
              then words
              else filter (\<lambda>x. lower (uw_word x) \<notin> set (get_list (ts_recent_words (session w chat_id)))) words)
         \<and> raised (create_card chat_id category words state w) = None
         \<and> ts_target_word (session (final (create_card chat_id category words state w)) chat_id)
             = Some (lower (uw_word word))
         \<and> (lower (uw_word word) \<notin> set (get_list (ts_recent_words (session w chat_id)))
            \<or> (\<forall>x\<in>set words. lower (uw_word x) \<in> set (get_list (ts_recent_words (session w chat_id)))))"
proof -
  define recent where "recent = get_list (ts_recent_words (session w chat_id))"
  from create_card_render[OF assms, of w chat_id category state]
  obtain word and options :: "string list" where
    m: "word \<in> set (card_pool words (session w chat_id))"
    and r: "raised (create_card chat_id category words state w) = None"
    and u: "users_state (final (create_card chat_id category words state w)) =
             (users_state w)(chat_id \<mapsto> (session w chat_id)
                \<lparr>ts_recent_words :=
                   Some (push_recent (get_list (ts_recent_words (session w chat_id))) (lower (uw_word word))),
                 ts_target_word := Some (lower (uw_word word)),
                 ts_translate_word := Some (lower (uw_translation word))\<rparr>)"
    by blast
  have a: "word \<in> set (available_words words recent)"
    using m by (simp add: set_weighted_words recent_def)
  have e: "available_words words recent =
             (if filter (\<lambda>x. lower (uw_word x) \<notin> set recent) words = [] then words
              else filter (\<lambda>x. lower (uw_word x) \<notin> set recent) words)"
    by (simp add: available_words_def Let_def)
  have d: "lower (uw_word word) \<notin> set recent \<or> (\<forall>x\<in>set words. lower (uw_word x) \<in> set recent)"
    using a by (auto simp: available_words_cases split: if_splits)
  show ?thesis
    using a e r d unfolding recent_def by (intro exI[of _ word]) (simp add: u)
qed

text \<open>With "two" recent and the draw 0, the target is not "two".\<close>

theorem recent_words_excluded_witness:
  "numbers \<noteq> []
   \<and> ts_target_word (session (final (create_card 100 ''chisla'' numbers level1_numbers
        (numbers_world [100 \<mapsto> two_recent_three_wrong] [0, 0, 0, 0, 0]))) 100) \<noteq> Some ''two''"
proof -
  have ne: "numbers \<noteq> []" by (simp add: numbers_def)
  have s: "session (numbers_world [100 \<mapsto> two_recent_three_wrong] [0, 0, 0, 0, 0]) 100 = two_recent_three_wrong"
    by (simp add: numbers_world_def)
  have rc: "get_list (ts_recent_words two_recent_three_wrong) = [''two'']"
    by (simp add: two_recent_three_wrong_def get_list_def)
  have some: "\<not> (\<forall>x\<in>set numbers. lower (uw_word x) \<in> set [''two''])"
    by (simp add: numbers_def lower_def lower_char_def)
  note h = recent_words_excluded[OF ne, of "numbers_world [100 \<mapsto> two_recent_three_wrong] [0, 0, 0, 0, 0]" 100
      "''chisla''" level1_numbers, unfolded s rc]
  from h obtain word :: user_word where
    "ts_target_word (session (final (create_card 100 ''chisla'' numbers level1_numbers
        (numbers_world [100 \<mapsto> two_recent_three_wrong] [0, 0, 0, 0, 0]))) 100) = Some (lower (uw_word word))"
    "lower (uw_word word) \<notin> set [''two''] \<or> (\<forall>x\<in>set numbers. lower (uw_word x) \<in> set [''two''])"
    by (elim exE conjE) (rule that, assumption+)
  with some ne show ?thesis by auto
qed

text \<open>
  C3. With candidates, the card sent carries options that hold the target word
  (lower-cased, as the session stores it) exactly once, hold no word twice (they are
  lower-cased words of candidates, so none twice up to case either), and are
  \<open>min 4 n\<close> many, \<open>n\<close> being the number of distinct lower-cased candidate words: with fewer
  than four distinct words, exactly those, without padding.
\<close>

theorem card_options_correct:
  assumes "words \<noteq> []"
  shows "\<exists>target translate options.
           raised (create_card chat_id category words state w) = None
         \<and> ts_target_word (session (final (create_card chat_id category words state w)) chat_id) = Some target
         \<and> sent (final (create_card chat_id category words state w)) =
             sent w @ [(chat_id, Card (us_level state) category translate options)]
         \<and> count_list options target = 1
         \<and> distinct options
         \<and> distinct (map lower options)
         \<and> set options \<subseteq> lower ` uw_word ` set words
         \<and> length options = min 4 (card (lower ` uw_word ` set words))"
proof -
  from create_card_render[OF assms, of w chat_id category state]
  obtain word :: user_word and options where
    d: "distinct options"
    and m: "lower (uw_word word) \<in> set options"
    and sub: "set options \<subseteq> lower ` uw_word ` set words"
    and len: "length options = min 4 (card (lower ` uw_word ` set words))"
    and r: "raised (create_card chat_id category words state w) = None"
    and s: "sent (final (create_card chat_id category words state w)) =
             sent w @ [(chat_id, Card (us_level state) category (uw_translation word) options)]"
    and u: "users_state (final (create_card chat_id category words state w)) =
             (users_state w)(chat_id \<mapsto> (session w chat_id)
                \<lparr>ts_recent_words :=
                   Some (push_recent (get_list (ts_recent_words (session w chat_id))) (lower (uw_word word))),
                 ts_target_word := Some (lower (uw_word word)),
                 ts_translate_word := Some (lower (uw_translation word))\<rparr>)"
    by blast
  have "map lower options = options" using sub by (rule map_lower_fixed)
  then have dl: "distinct (map lower options)" using d by simp
  have c: "count_list options (lower (uw_word word)) = 1"
    using d m by (rule distinct_count_list_1)
  show ?thesis
    using r s c d dl sub len
    by (intro exI[of _ "lower (uw_word word)"] exI[of _ "uw_translation word"] exI[of _ options])
       (simp add: u)
qed

section \<open>The recent words as a bounded queue\<close>

lemma raised_None: "raised res = None \<Longrightarrow> res = Inr (final res)"
  by (cases res) (auto simp: raised_def final_def)

lemma push_recent_length: "length recent \<le> 3 \<Longrightarrow> length (push_recent recent t) \<le> 3"
  by (auto simp: push_recent_def Let_def)

lemma drop_last3_append:
  assumes "length recent \<le> 3"
  shows "drop (length (push_recent recent t @ shown) - 3) (push_recent recent t @ shown)
       = drop (length (recent @ t # shown) - 3) (recent @ t # shown)"
proof (cases "length recent = 3")
  case True
  then obtain a rest where r: "recent = a # rest" by (cases recent) auto
  with True have "push_recent recent t = rest @ [t]" by (simp add: push_recent_def)
  with r True show ?thesis by simp
next
  case False
  with assms have "push_recent recent t = recent @ [t]" by (simp add: push_recent_def)
  then show ?thesis by simp
qed

lemma create_card_step:
  "\<exists>w1. create_card chat_id category words state w = Inr w1
     \<and> (if words = [] then session w1 chat_id = session w chat_id
         else \<exists>t. ts_target_word (session w1 chat_id) = Some t
                \<and> ts_recent_words (session w1 chat_id)
                    = Some (push_recent (get_list (ts_recent_words (session w chat_id))) t))"
proof (cases "words = []")
  case True
  then show ?thesis by (simp add: create_card_def send_message_def)
next
  case False
  from create_card_render[OF False, of w chat_id category state]
  obtain word :: user_word and options :: "string list" where
    r: "raised (create_card chat_id category words state w) = None"
    and u: "users_state (final (create_card chat_id category words state w)) =
             (users_state w)(chat_id \<mapsto> (session w chat_id)
                \<lparr>ts_recent_words :=
                   Some (push_recent (get_list (ts_recent_words (session w chat_id))) (lower (uw_word word))),
                 ts_target_word := Some (lower (uw_word word)),
                 ts_translate_word := Some (lower (uw_translation word))\<rparr>)"
    by blast
  show ?thesis
    using False raised_None[OF r]
    by (intro exI[of _ "final (create_card chat_id category words state w)"]) (simp add: u)
qed

lemma render_cards_recent:
  "length (get_list (ts_recent_words (session w chat_id))) \<le> 3 \<Longrightarrow>
   \<exists>shown w'. render_cards chat_id requests w = Inr (shown, w')
     \<and> length shown = length (filter (\<lambda>(category, words, state). words \<noteq> []) requests)
     \<and> get_list (ts_recent_words (session w' chat_id))
         = drop (length (get_list (ts_recent_words (session w chat_id)) @ shown) - 3)
                (get_list (ts_recent_words (session w chat_id)) @ shown)"
proof (induction requests arbitrary: w)
  case Nil
  then show ?case by simp
next
  case (Cons req rest)
  obtain category words state where req: "req = (category, words, state)" by (cases req)
  define recent where "recent = get_list (ts_recent_words (session w chat_id))"
  from create_card_step[of chat_id category words state w] obtain w1 where
    c: "create_card chat_id category words state w = Inr w1"
    and k: "if words = [] then session w1 chat_id = session w chat_id
         else \<exists>t. ts_target_word (session w1 chat_id) = Some t
                \<and> ts_recent_words (session w1 chat_id) = Some (push_recent recent t)"
    unfolding recent_def by blast
  show ?case
  proof (cases "words = []")
    case True
    with k have same: "session w1 chat_id = session w chat_id" by simp
    with Cons.prems have "length (get_list (ts_recent_words (session w1 chat_id))) \<le> 3" by simp
    from Cons.IH[OF this] obtain shown w' where
      "render_cards chat_id rest w1 = Inr (shown, w')"
      "length shown = length (filter (\<lambda>(category, words, state). words \<noteq> []) rest)"
      "get_list (ts_recent_words (session w' chat_id))
         = drop (length (get_list (ts_recent_words (session w1 chat_id)) @ shown) - 3)
                (get_list (ts_recent_words (session w1 chat_id)) @ shown)"
      by blast
    then show ?thesis using True c same by (simp add: req)
  next
    case False
    with k obtain t where t: "ts_target_word (session w1 chat_id) = Some t"
      and r1: "ts_recent_words (session w1 chat_id) = Some (push_recent recent t)" by auto
    have len: "length recent \<le> 3" using Cons.prems by (simp add: recent_def)
    have "length (get_list (ts_recent_words (session w1 chat_id))) \<le> 3"
      using push_recent_length[OF len] by (simp add: r1 get_list_def)
    from Cons.IH[OF this] obtain shown w' where
      h: "render_cards chat_id rest w1 = Inr (shown, w')"
      "length shown = length (filter (\<lambda>(category, words, state). words \<noteq> []) rest)"
      "get_list (ts_recent_words (session w' chat_id))
         = drop (length (push_recent recent t @ shown) - 3) (push_recent recent t @ shown)"
      by (auto simp: r1 get_list_def)
    have "get_list (ts_recent_words (session w' chat_id))
         = drop (length (recent @ t # shown) - 3) (recent @ t # shown)"
      using h(3) drop_last3_append[OF len] by simp
    then show ?thesis using False c t h(1,2) by (simp add: req recent_def)
  qed
qed

text \<open>
  C4. A render with candidates appends the target word to the recent words and, when the
  list is then longer than 3, removes its first entry. So a run of renders that starts
  with at most 3 recent words (a new session has none) ends with the last 3 entries of
  the earlier recent words followed by the targets shown, oldest first: at most 3 words.
  Renders without candidates show nothing and leave the list alone.
\<close>

theorem recent_words_fifo:
  "(words \<noteq> [] \<longrightarrow>
      (\<exists>t. ts_target_word (session (final (create_card chat_id category words state w)) chat_id) = Some t
         \<and> ts_recent_words (session (final (create_card chat_id category words state w)) chat_id)
             = Some (if length (get_list (ts_recent_words (session w chat_id)) @ [t]) > 3
                     then tl (get_list (ts_recent_words (session w chat_id)) @ [t])
                     else get_list (ts_recent_words (session w chat_id)) @ [t])))
   \<and> (length (get_list (ts_recent_words (session w chat_id))) \<le> 3 \<longrightarrow>
      (\<exists>shown w'. render_cards chat_id requests w = Inr (shown, w')
         \<and> length shown = length (filter (\<lambda>(category, words, state). words \<noteq> []) requests)
         \<and> get_list (ts_recent_words (session w' chat_id))
             = drop (length (get_list (ts_recent_words (session w chat_id)) @ shown) - 3)
                    (get_list (ts_recent_words (session w chat_id)) @ shown)
         \<and> length (get_list (ts_recent_words (session w' chat_id))) \<le> 3))"
proof (intro conjI impI)
  assume ne: "words \<noteq> []"
  from create_card_step[of chat_id category words state w] ne obtain w1 t where
    "create_card chat_id category words state w = Inr w1"
    "ts_target_word (session w1 chat_id) = Some t"
    "ts_recent_words (session w1 chat_id)
      = Some (push_recent (get_list (ts_recent_words (session w chat_id))) t)"
    by auto
  then show "\<exists>t. ts_target_word (session (final (create_card chat_id category words state w)) chat_id) = Some t
         \<and> ts_recent_words (session (final (create_card chat_id category words state w)) chat_id)
             = Some (if length (get_list (ts_recent_words (session w chat_id)) @ [t]) > 3
                     then tl (get_list (ts_recent_words (session w chat_id)) @ [t])
                     else get_list (ts_recent_words (session w chat_id)) @ [t])"
    by (intro exI[of _ t]) (simp add: final_def push_recent_def Let_def)
next
  assume len: "length (get_list (ts_recent_words (session w chat_id))) \<le> 3"
  from render_cards_recent[OF len, of requests] obtain shown w' where
    h: "render_cards chat_id requests w = Inr (shown, w')"
      "length shown = length (filter (\<lambda>(category, words, state). words \<noteq> []) requests)"
      "get_list (ts_recent_words (session w' chat_id))
         = drop (length (get_list (ts_recent_words (session w chat_id)) @ shown) - 3)
                (get_list (ts_recent_words (session w chat_id)) @ shown)"
    by blast
  have "length (get_list (ts_recent_words (session w' chat_id))) \<le> 3"
    unfolding h(3) by simp
  with h show "\<exists>shown w'. render_cards chat_id requests w = Inr (shown, w')
         \<and> length shown = length (filter (\<lambda>(category, words, state). words \<noteq> []) requests)
         \<and> get_list (ts_recent_words (session w' chat_id))
             = drop (length (get_list (ts_recent_words (session w chat_id)) @ shown) - 3)
                    (get_list (ts_recent_words (session w chat_id)) @ shown)
         \<and> length (get_list (ts_recent_words (session w' chat_id))) \<le> 3"
    by blast
qed

section \<open>Renders evaluated\<close>

text \<open>A new session, three candidates, every draw 0: three options, the target once.\<close>

theorem card_options_correct_witness:
  "numbers \<noteq> []
   \<and> (\<exists>target translate options.
         raised (create_card 100 ''chisla'' numbers level1_numbers (numbers_world Map.empty [])) = None
       \<and> ts_target_word (session (final (create_card 100 ''chisla'' numbers level1_numbers
            (numbers_world Map.empty []))) 100) = Some target
       \<and> sent (final (create_card 100 ''chisla'' numbers level1_numbers (numbers_world Map.empty [])))
            = [(100, Card (Some 1) ''chisla'' translate options)]
       \<and> count_list options target = 1
       \<and> distinct options
       \<and> length options = 3)"
proof -
  have ne: "numbers \<noteq> []" by (simp add: numbers_def)
  have c: "card (lower ` uw_word ` set numbers) = 3"
    by (simp add: numbers_def lower_def lower_char_def)
  have s: "sent (numbers_world Map.empty []) = []" "us_level level1_numbers = Some 1"
    by (simp_all add: numbers_world_def level1_numbers_def)
  from card_options_correct[OF ne, of 100 "''chisla''" level1_numbers "numbers_world Map.empty []"]
  show ?thesis using ne unfolding c s by auto
qed

text \<open>
  Five renders in a new session, the third without candidates: the targets are one, two,
  three, one, and the recent words end as two, three, one.
\<close>

theorem recent_words_fifo_witness:
  "numbers \<noteq> []
   \<and> length (get_list (ts_recent_words (session (numbers_world Map.empty []) 100))) \<le> 3
   \<and> (\<exists>t. ts_target_word (session (final (create_card 100 ''chisla'' numbers level1_numbers
              (numbers_world Map.empty []))) 100) = Some t
         \<and> ts_recent_words (session (final (create_card 100 ''chisla'' numbers level1_numbers
              (numbers_world Map.empty []))) 100) = Some [t])
   \<and> (\<exists>shown w'.
         render_cards 100
           [(''chisla'', numbers, level1_numbers), (''chisla'', numbers, level1_numbers),
            (''chisla'', [], level1_numbers), (''chisla'', numbers, level1_numbers),
            (''chisla'', numbers, level1_numbers)] (numbers_world Map.empty []) = Inr (shown, w')
       \<and> shown = [''one'', ''two'', ''three'', ''one'']
       \<and> get_list (ts_recent_words (session w' 100)) = [''two'', ''three'', ''one''])"
proof -
  have ne: "numbers \<noteq> []" by (simp add: numbers_def)
  have r: "get_list (ts_recent_words (session (numbers_world Map.empty []) 100)) = []"
    by (simp add: numbers_world_def get_or_empty_def State_get_def empty_dict_def get_list_def)
  have ev: "fst (projr (render_cards 100
           [(''chisla'', numbers, level1_numbers), (''chisla'', numbers, level1_numbers),
            (''chisla'', [], level1_numbers), (''chisla'', numbers, level1_numbers),
            (''chisla'', numbers, level1_numbers)] (numbers_world Map.empty [])))
        = [''one'', ''two'', ''three'', ''one'']"
    by code_simp
  note h = recent_words_fifo[of numbers 100 "''chisla''" level1_numbers "numbers_world Map.empty []"
      "[(''chisla'', numbers, level1_numbers), (''chisla'', numbers, level1_numbers),
            (''chisla'', [], level1_numbers), (''chisla'', numbers, level1_numbers),
            (''chisla'', numbers, level1_numbers)]", unfolded r]
  from h ne have one: "\<exists>t. ts_target_word (session (final (create_card 100 ''chisla'' numbers level1_numbers
              (numbers_world Map.empty []))) 100) = Some t
         \<and> ts_recent_words (session (final (create_card 100 ''chisla'' numbers level1_numbers
              (numbers_world Map.empty []))) 100) = Some [t]"
    by simp
  from h obtain shown w' where
    run: "render_cards 100
           [(''chisla'', numbers, level1_numbers), (''chisla'', numbers, level1_numbers),
            (''chisla'', [], level1_numbers), (''chisla'', numbers, level1_numbers),
            (''chisla'', numbers, level1_numbers)] (numbers_world Map.empty []) = Inr (shown, w')"
    and rec: "get_list (ts_recent_words (session w' 100)) = drop (length ([] @ shown) - 3) ([] @ shown)"
    by auto
  from ev run have sh: "shown = [''one'', ''two'', ''three'', ''one'']" by simp
  with rec have "get_list (ts_recent_words (session w' 100)) = [''two'', ''three'', ''one'']" by simp
  with run sh one ne show ?thesis by (simp add: r)
qed

section \<open>Card creation without candidates\<close>

text \<open>
  C9. When the candidate list is empty, \<open>create_card\<close> returns normally after sending the
  "no words available" message and changes nothing else: the sessions (so the chat's
  recent words, wrong answers, target word and target translation), the database and the
  random generator are as before the call.
\<close>

theorem create_card_no_words:
  "raised (create_card chat_id category [] state w) = None
   \<and> sent (final (create_card chat_id category [] state w)) = sent w @ [(chat_id, NoWordsAvailable)]
   \<and> users_state (final (create_card chat_id category [] state w)) = users_state w
   \<and> session (final (create_card chat_id category [] state w)) chat_id = session w chat_id
   \<and> db (final (create_card chat_id category [] state w)) = db w
   \<and> random_state (final (create_card chat_id category [] state w)) = random_state w"
  by (simp add: create_card_def send_message_def final_def raised_def)

section \<open>Checking an answer\<close>

lemma session_send [simp]: "session (send_message c m w) chat_id = session w chat_id"
  by (simp add: send_message_def)

lemma get_all_words_found:
  assumes "find (\<lambda>u. u_chat_id u = chat_id) (users d) = Some user"
  shows "\<exists>words. get_all_words chat_id category d = Inr words"
  using assms by (simp add: get_all_words_def Let_def)

lemma create_card_total:
  "\<exists>w'. create_card chat_id category words state w = Inr w' \<and> db w' = db w"
proof (cases "words = []")
  case True
  then show ?thesis by (simp add: create_card_def send_message_def)
next
  case False
  from create_card_render[OF False, of w chat_id category state]
  have "raised (create_card chat_id category words state w) = None
      \<and> db (final (create_card chat_id category words state w)) = db w"
    by (elim exE conjE) simp
  then show ?thesis using raised_None[of "create_card chat_id category words state w"] by auto
qed

lemma check_correct:
  assumes tw: "ts_target_word temp_state = Some tw" "tw \<noteq> []" "text = tw"
    and g: "get_all_words chat_id (us_category state) (db w) = Inr words"
  shows "check_answer chat_id text user state temp_state w =
           create_card chat_id (case us_category state of None \<Rightarrow> [] | Some c \<Rightarrow> c) words state
             (send_message chat_id Correct w)"
  using assms by (simp add: check_answer_def Let_def send_message_def)

lemma check_incorrect:
  assumes tw: "ts_target_word temp_state = Some tw" "tw \<noteq> []" "text \<noteq> tw"
  shows "check_answer chat_id text user state temp_state w =
           Inr (w\<lparr>sent := sent w @ [(chat_id, Incorrect)],
                  users_state := (users_state w)(chat_id \<mapsto> temp_state
                    \<lparr>ts_wrong_answers := Some (if tw \<in> set (get_list (ts_wrong_answers temp_state))
                                                then get_list (ts_wrong_answers temp_state)
                                                else get_list (ts_wrong_answers temp_state) @ [tw])\<rparr>)\<rparr>)"
  using assms by (simp add: check_answer_def Let_def send_message_def State_set_def)

lemma check_no_target:
  assumes "falsy_str (ts_target_word temp_state)"
  shows "check_answer chat_id text user state temp_state w =
           Inr (w\<lparr>sent := sent w @ [(chat_id, CurrentWordNotFound)]\<rparr>)"
  using assms by (auto simp: check_answer_def falsy_str_def send_message_def)

lemma process_is_check:
  assumes "ts_action temp_state \<noteq> Some ''add_word''" "ts_action temp_state \<noteq> Some ''add_translation''"
    "ts_action temp_state \<noteq> Some ''delete_word''"
  shows "process_word_actions chat_id message_text user state temp_state w =
           check_answer chat_id (lower message_text) user state temp_state w"
  using assms by (simp add: process_word_actions_def Let_def)

text \<open>
  C5, amended. \<open>process_word_actions\<close> is called as \<open>handle_text\<close> calls it (with the
  session of the chat), no add or delete action is pending, and the word query succeeds.
  With a target word set (not empty) and a text whose lower-case form equals it, the
  answer is correct: \<open>create_card\<close> runs on the words of the long-lived category and level,
  the wrong answers stay as they are, and a new card is sent when that list has words;
  when it has none, "no words available" is sent and the session stays as it was.
  With any other text the answer is incorrect: the target word is appended to the wrong
  answers unless it is there already, nothing else in the session changes (target word
  and recent words as before) and no card is sent. With no target word (absent or empty)
  the only effect is the message that the current word was not found.
\<close>

theorem answer_check:
  assumes act: "ts_action temp_state \<noteq> Some ''add_word''"
      "ts_action temp_state \<noteq> Some ''add_translation''"
      "ts_action temp_state \<noteq> Some ''delete_word''"
    and ts: "temp_state = session w chat_id"
    and g: "get_all_words chat_id (us_category state) (db w) = Inr words"
  shows
    "(ts_target_word temp_state = Some tw \<and> tw \<noteq> [] \<and> lower message_text = tw \<longrightarrow>
        process_word_actions chat_id message_text user state temp_state w
          = create_card chat_id (case us_category state of None \<Rightarrow> [] | Some c \<Rightarrow> c) words state
              (send_message chat_id Correct w)
        \<and> raised (process_word_actions chat_id message_text user state temp_state w) = None
        \<and> db (final (process_word_actions chat_id message_text user state temp_state w)) = db w
        \<and> ts_wrong_answers (session (final (process_word_actions chat_id message_text user state temp_state w)) chat_id)
            = ts_wrong_answers temp_state
        \<and> (words \<noteq> [] \<longrightarrow>
             (\<exists>translate options.
                sent (final (process_word_actions chat_id message_text user state temp_state w))
                  = sent w @ [(chat_id, Correct),
                       (chat_id, Card (us_level state) (case us_category state of None \<Rightarrow> [] | Some c \<Rightarrow> c)
                          translate options)]))
        \<and> (words = [] \<longrightarrow>
             sent (final (process_word_actions chat_id message_text user state temp_state w))
               = sent w @ [(chat_id, Correct), (chat_id, NoWordsAvailable)]
             \<and> users_state (final (process_word_actions chat_id message_text user state temp_state w))
               = users_state w))
     \<and> (ts_target_word temp_state = Some tw \<and> tw \<noteq> [] \<and> lower message_text \<noteq> tw \<longrightarrow>
        raised (process_word_actions chat_id message_text user state temp_state w) = None
        \<and> db (final (process_word_actions chat_id message_text user state temp_state w)) = db w
        \<and> sent (final (process_word_actions chat_id message_text user state temp_state w))
            = sent w @ [(chat_id, Incorrect)]
        \<and> session (final (process_word_actions chat_id message_text user state temp_state w)) chat_id
            = temp_state\<lparr>ts_wrong_answers :=
                Some (if tw \<in> set (get_list (ts_wrong_answers temp_state))
                      then get_list (ts_wrong_answers temp_state)
                      else get_list (ts_wrong_answers temp_state) @ [tw])\<rparr>
        \<and> ts_target_word (session (final (process_word_actions chat_id message_text user state temp_state w)) chat_id)
            = Some tw
        \<and> ts_recent_words (session (final (process_word_actions chat_id message_text user state temp_state w)) chat_id)
            = ts_recent_words temp_state)
     \<and> (falsy_str (ts_target_word temp_state) \<longrightarrow>
        process_word_actions chat_id message_text user state temp_state w
          = Inr (w\<lparr>sent := sent w @ [(chat_id, CurrentWordNotFound)]\<rparr>))"
proof (intro conjI impI)
  let ?res = "process_word_actions chat_id message_text user state temp_state w"
  let ?cat = "case us_category state of None \<Rightarrow> [] | Some c \<Rightarrow> c"
  let ?w1 = "send_message chat_id Correct w"
  note chk = process_is_check[OF act, of chat_id message_text user state w]
  {
    assume a: "ts_target_word temp_state = Some tw \<and> tw \<noteq> [] \<and> lower message_text = tw"
    then have eq: "?res = create_card chat_id ?cat words state ?w1"
      using check_correct[of temp_state tw "lower message_text" chat_id state w words user] g chk by simp
    show "?res = create_card chat_id ?cat words state ?w1" by (rule eq)
    from create_card_total[of chat_id ?cat words state ?w1] obtain w' where
      w': "create_card chat_id ?cat words state ?w1 = Inr w'" "db w' = db ?w1" by blast
    show "raised ?res = None" by (simp add: eq w' raised_def)
    show "db (final ?res) = db w" by (simp add: eq w' final_def) (simp add: send_message_def)
    show "ts_wrong_answers (session (final ?res) chat_id) = ts_wrong_answers temp_state"
    proof (cases "words = []")
      case True
      then show ?thesis unfolding eq by (simp add: create_card_def final_def ts)
    next
      case False
      from create_card_render[OF False, of ?w1 chat_id ?cat state]
      obtain word :: user_word and options :: "string list" where
        "users_state (final (create_card chat_id ?cat words state ?w1)) =
             (users_state ?w1)(chat_id \<mapsto> (session ?w1 chat_id)
                \<lparr>ts_recent_words :=
                   Some (push_recent (get_list (ts_recent_words (session ?w1 chat_id))) (lower (uw_word word))),
                 ts_target_word := Some (lower (uw_word word)),
                 ts_translate_word := Some (lower (uw_translation word))\<rparr>)"
        by (elim exE conjE) (rule that)
      then show ?thesis unfolding eq by (simp add: ts)
    qed
    {
      assume ne: "words \<noteq> []"
      from create_card_render[OF ne, of ?w1 chat_id ?cat state]
      obtain word :: user_word and options :: "string list" where
        "sent (final (create_card chat_id ?cat words state ?w1)) =
           sent ?w1 @ [(chat_id, Card (us_level state) ?cat (uw_translation word) options)]"
        by (elim exE conjE) (rule that)
      then show "\<exists>translate options. sent (final ?res)
                  = sent w @ [(chat_id, Correct), (chat_id, Card (us_level state) ?cat translate options)]"
        by (intro exI[of _ "uw_translation word"] exI[of _ options]) (simp add: eq send_message_def)
    }
    {
      assume e: "words = []"
      show "sent (final ?res) = sent w @ [(chat_id, Correct), (chat_id, NoWordsAvailable)]"
        by (simp add: eq e create_card_def final_def send_message_def)
      show "users_state (final ?res) = users_state w"
        by (simp add: eq e create_card_def final_def send_message_def)
    }
  }
  {
    assume a: "ts_target_word temp_state = Some tw \<and> tw \<noteq> [] \<and> lower message_text \<noteq> tw"
    then have eq: "?res = Inr (w\<lparr>sent := sent w @ [(chat_id, Incorrect)],
                  users_state := (users_state w)(chat_id \<mapsto> temp_state
                    \<lparr>ts_wrong_answers := Some (if tw \<in> set (get_list (ts_wrong_answers temp_state))
                                                then get_list (ts_wrong_answers temp_state)
                                                else get_list (ts_wrong_answers temp_state) @ [tw])\<rparr>)\<rparr>)"
      using check_incorrect[of temp_state tw "lower message_text" chat_id user state w] chk by simp
    show "raised ?res = None" by (simp add: eq raised_def)
    show "db (final ?res) = db w" by (simp add: eq final_def)
    show "sent (final ?res) = sent w @ [(chat_id, Incorrect)]" by (simp add: eq final_def)
    show "session (final ?res) chat_id
            = temp_state\<lparr>ts_wrong_answers :=
                Some (if tw \<in> set (get_list (ts_wrong_answers temp_state))
                      then get_list (ts_wrong_answers temp_state)
                      else get_list (ts_wrong_answers temp_state) @ [tw])\<rparr>"
      by (simp add: eq final_def)
    show "ts_target_word (session (final ?res) chat_id) = Some tw"
      using a by (simp add: eq final_def)
    show "ts_recent_words (session (final ?res) chat_id) = ts_recent_words temp_state"
      by (simp add: eq final_def)
  }
  {
    assume "falsy_str (ts_target_word temp_state)"
    then show "?res = Inr (w\<lparr>sent := sent w @ [(chat_id, CurrentWordNotFound)]\<rparr>)"
      using check_no_target[of temp_state chat_id "lower message_text" user state w] chk by simp
  }
qed

section \<open>Answers evaluated\<close>

lemma numbers_query:
  "get_all_words 100 (us_category level1_numbers) (db (numbers_world sessions draws)) = Inr numbers"
  by (simp add: get_all_words_def numbers_world_def numbers_db_def vasya_def level1_numbers_def numbers_def)

lemma card_one_open_fields:
  "ts_action card_one_open = None" "ts_target_word card_one_open = Some ''one''"
  "ts_wrong_answers card_one_open = None" "ts_recent_words card_one_open = Some [''one'']"
  by (simp_all add: card_one_open_def empty_dict_def)

lemma lower_examples:
  "lower ''One'' = ''one''" "lower ''one'' = ''one''" "lower ''two'' = ''two''"
  "lower ''table'' = ''table''" "lower ''stol'' = ''stol''" "lower ''chisla'' = ''chisla''"
  "lower ''odin'' = ''odin''" "lower ''Table'' = ''table''" "lower ''Odin'' = ''odin''"
  by (simp_all add: lower_def lower_char_def)

text \<open>
  The card for "one" is open: "One" is correct and a card follows, "two" is incorrect and
  "one" becomes a wrong answer.
\<close>

theorem answer_check_witness:
  "ts_action card_one_open \<noteq> Some ''add_word'' \<and> ts_action card_one_open \<noteq> Some ''add_translation''
   \<and> ts_action card_one_open \<noteq> Some ''delete_word''
   \<and> card_one_open = session (numbers_world [100 \<mapsto> card_one_open] []) 100
   \<and> get_all_words 100 (us_category level1_numbers) (db (numbers_world [100 \<mapsto> card_one_open] [])) = Inr numbers
   \<and> lower ''One'' = ''one'' \<and> lower ''two'' \<noteq> ''one''
   \<and> raised (process_word_actions 100 ''One'' vasya level1_numbers card_one_open
         (numbers_world [100 \<mapsto> card_one_open] [])) = None
   \<and> ts_wrong_answers (session (final (process_word_actions 100 ''One'' vasya level1_numbers card_one_open
         (numbers_world [100 \<mapsto> card_one_open] []))) 100) = None
   \<and> (\<exists>translate options.
         sent (final (process_word_actions 100 ''One'' vasya level1_numbers card_one_open
           (numbers_world [100 \<mapsto> card_one_open] [])))
         = [(100, Correct), (100, Card (Some 1) ''chisla'' translate options)])
   \<and> session (final (process_word_actions 100 ''two'' vasya level1_numbers card_one_open
         (numbers_world [100 \<mapsto> card_one_open] []))) 100
       = card_one_open\<lparr>ts_wrong_answers := Some [''one'']\<rparr>
   \<and> sent (final (process_word_actions 100 ''two'' vasya level1_numbers card_one_open
         (numbers_world [100 \<mapsto> card_one_open] []))) = [(100, Incorrect)]"
proof -
  let ?w = "numbers_world [100 \<mapsto> card_one_open] []"
  have act: "ts_action card_one_open \<noteq> Some ''add_word''"
    "ts_action card_one_open \<noteq> Some ''add_translation''"
    "ts_action card_one_open \<noteq> Some ''delete_word''"
    by (simp_all add: card_one_open_fields)
  have ts: "card_one_open = session ?w 100" by (simp add: numbers_world_def)
  have g: "get_all_words 100 (us_category level1_numbers) (db ?w) = Inr numbers"
    by (rule numbers_query)
  have ne: "numbers \<noteq> []" by (simp add: numbers_def)
  have s0: "sent ?w = []" "us_level level1_numbers = Some 1" "us_category level1_numbers = Some ''chisla''"
    by (simp_all add: numbers_world_def level1_numbers_def)
  note right = answer_check[OF act ts g, of "''one''" "''One''" vasya]
  note wrong = answer_check[OF act ts g, of "''one''" "''two''" vasya]
  have l2: "lower ''two'' \<noteq> ''one''" by (simp add: lower_examples)
  have pre: "ts_target_word card_one_open = Some ''one'' \<and> ''one'' \<noteq> [] \<and> lower ''One'' = ''one''"
    by (simp add: card_one_open_fields lower_examples)
  note R = right[THEN conjunct1, THEN mp, OF pre, THEN conjunct2]
  have r1: "raised (process_word_actions 100 ''One'' vasya level1_numbers card_one_open ?w) = None"
    using R[THEN conjunct1] .
  have r2: "ts_wrong_answers (session (final (process_word_actions 100 ''One'' vasya level1_numbers card_one_open ?w)) 100) = None"
    using R[THEN conjunct2, THEN conjunct2, THEN conjunct1] by (simp add: card_one_open_fields)
  have r3: "\<exists>translate options.
         sent (final (process_word_actions 100 ''One'' vasya level1_numbers card_one_open ?w))
         = [(100, Correct), (100, Card (Some 1) ''chisla'' translate options)]"
    using R[THEN conjunct2, THEN conjunct2, THEN conjunct2, THEN conjunct1, THEN mp, OF ne]
    by (simp add: s0)
  have pre2: "ts_target_word card_one_open = Some ''one'' \<and> ''one'' \<noteq> [] \<and> lower ''two'' \<noteq> ''one''"
    by (simp add: card_one_open_fields lower_examples)
  note W = wrong[THEN conjunct2, THEN conjunct1, THEN mp, OF pre2]
  have w1: "session (final (process_word_actions 100 ''two'' vasya level1_numbers card_one_open ?w)) 100
       = card_one_open\<lparr>ts_wrong_answers := Some [''one'']\<rparr>"
    using W[THEN conjunct2, THEN conjunct2, THEN conjunct2, THEN conjunct1]
    by (simp add: card_one_open_fields get_list_def)
  have w2: "sent (final (process_word_actions 100 ''two'' vasya level1_numbers card_one_open ?w)) = [(100, Incorrect)]"
    using W[THEN conjunct2, THEN conjunct2, THEN conjunct1] by (simp add: s0)
  from act ts g l2 r1 r2 r3 w1 w2 show ?thesis by (simp add: lower_examples)
qed

text \<open>
  C5 as stated fails: after the user moved to level 2, where the category has no words,
  the correct answer "one" is acknowledged and followed by "no words available": no card
  is rendered and the session keeps its target word.
\<close>

theorem correct_answer_without_card:
  "ts_action card_one_open = None
   \<and> ts_target_word card_one_open = Some ''one''
   \<and> lower ''one'' = ''one''
   \<and> session (vasya_world level2_numbers numbers [100 \<mapsto> card_one_open] []) 100 = card_one_open
   \<and> raised (process_word_actions 100 ''one'' vasya level2_numbers card_one_open
        (vasya_world level2_numbers numbers [100 \<mapsto> card_one_open] [])) = None
   \<and> sent (final (process_word_actions 100 ''one'' vasya level2_numbers card_one_open
        (vasya_world level2_numbers numbers [100 \<mapsto> card_one_open] [])))
       = [(100, Correct), (100, NoWordsAvailable)]
   \<and> session (final (process_word_actions 100 ''one'' vasya level2_numbers card_one_open
        (vasya_world level2_numbers numbers [100 \<mapsto> card_one_open] []))) 100 = card_one_open"
  by code_simp

section \<open>The end of a commit: a card, then the session is cleared\<close>

lemma State_clear_eq: "State_clear m chat_id = m(chat_id := None)"
  by (auto simp: State_clear_def)

lemma create_card_frame:
  "\<exists>w' m. create_card chat_id category words state w = Inr w' \<and> db w' = db w
     \<and> sent w' = sent w @ [(chat_id, m)]
     \<and> (words = [] \<longrightarrow> m = NoWordsAvailable \<and> users_state w' = users_state w)
     \<and> (words \<noteq> [] \<longrightarrow> (\<exists>translate options. m = Card (us_level state) category translate options)
            \<and> ts_target_word (session w' chat_id) \<noteq> None)"
proof (cases "words = []")
  case True
  then show ?thesis by (simp add: create_card_def send_message_def)
next
  case False
  from create_card_render[OF False, of w chat_id category state]
  obtain word :: user_word and options :: "string list" where
    h: "raised (create_card chat_id category words state w) = None"
    "db (final (create_card chat_id category words state w)) = db w"
    "sent (final (create_card chat_id category words state w)) =
             sent w @ [(chat_id, Card (us_level state) category (uw_translation word) options)]"
    "users_state (final (create_card chat_id category words state w)) =
             (users_state w)(chat_id \<mapsto> (session w chat_id)
                \<lparr>ts_recent_words :=
                   Some (push_recent (get_list (ts_recent_words (session w chat_id))) (lower (uw_word word))),
                 ts_target_word := Some (lower (uw_word word)),
                 ts_translate_word := Some (lower (uw_translation word))\<rparr>)"
    by (elim exE conjE) (rule that)
  show ?thesis
    using False raised_None[OF h(1)] h(2,3)
    by (intro exI[of _ "final (create_card chat_id category words state w)"]
        exI[of _ "Card (us_level state) category (uw_translation word) options"]) (simp add: h(4))
qed

lemma new_card_then_clear_found:
  assumes "find (\<lambda>u. u_chat_id u = chat_id) (users (db w)) = Some user"
  shows "\<exists>words w2 m.
           get_all_words chat_id (Some category) (db w) = Inr words
         \<and> create_card chat_id category words state w = Inr w2
         \<and> db w2 = db w
         \<and> sent w2 = sent w @ [(chat_id, m)]
         \<and> (words = [] \<longrightarrow> m = NoWordsAvailable \<and> users_state w2 = users_state w)
         \<and> (words \<noteq> [] \<longrightarrow> (\<exists>translate options. m = Card (us_level state) category translate options)
                \<and> ts_target_word (session w2 chat_id) \<noteq> None)
         \<and> new_card_then_clear chat_id category state w
             = Inr (w2\<lparr>users_state := (users_state w2)(chat_id := None)\<rparr>)"
proof -
  from get_all_words_found[OF assms, of "Some category"] obtain words where
    g: "get_all_words chat_id (Some category) (db w) = Inr words" by blast
  from create_card_frame[of chat_id category words state w] obtain w2 m where
    c: "create_card chat_id category words state w = Inr w2" "db w2 = db w"
       "sent w2 = sent w @ [(chat_id, m)]"
       "words = [] \<longrightarrow> m = NoWordsAvailable \<and> users_state w2 = users_state w"
       "words \<noteq> [] \<longrightarrow> (\<exists>translate options. m = Card (us_level state) category translate options)
            \<and> ts_target_word (session w2 chat_id) \<noteq> None"
    by (elim exE conjE) (rule that)
  have "new_card_then_clear chat_id category state w
             = Inr (w2\<lparr>users_state := (users_state w2)(chat_id := None)\<rparr>)"
    by (simp add: new_card_then_clear_def g c(1) State_clear_eq)
  with g c show ?thesis by blast
qed

lemma filter_other_ids:
  "distinct (map f xs) \<Longrightarrow> x \<in> set xs \<Longrightarrow> filter (\<lambda>r. f r \<noteq> f x) xs = remove1 x xs"
proof (induction xs)
  case Nil
  then show ?case by simp
next
  case (Cons a xs)
  show ?case
  proof (cases "a = x")
    case True
    have "\<forall>r\<in>set xs. f r \<noteq> f x" using Cons.prems(1) True by (auto simp: image_iff)
    then have "filter (\<lambda>r. f r \<noteq> f x) xs = xs" by (simp add: filter_id_conv)
    with True show ?thesis by simp
  next
    case False
    with Cons.prems have "x \<in> set xs" "f a \<noteq> f x" by auto
    with Cons False show ?thesis by simp
  qed
qed

lemma send_db [simp]: "db (send_message c m w) = db w"
  and send_sent [simp]: "sent (send_message c m w) = sent w @ [(c, m)]"
  and send_users_state [simp]: "users_state (send_message c m w) = users_state w"
  by (simp_all add: send_message_def)

section \<open>Committing a delete\<close>

lemma process_is_delete:
  assumes "ts_action temp_state = Some ''delete_word''"
  shows "process_word_actions chat_id message_text user state temp_state w =
           delete_translation chat_id (lower message_text) user state temp_state w"
  using assms by (simp add: process_word_actions_def Let_def)

lemma process_is_add:
  assumes "ts_action temp_state = Some ''add_translation''"
  shows "process_word_actions chat_id message_text user state temp_state w =
           add_translation chat_id (lower message_text) user state temp_state w"
  using assms by (simp add: process_word_actions_def Let_def)

lemma users_delete_row [simp]: "users (delete_row row d) = users d"
  and user_states_delete_row [simp]: "user_states (delete_row row d) = user_states d"
  and user_words_delete_row [simp]:
    "user_words (delete_row row d) = filter (\<lambda>r. uw_id r \<noteq> uw_id row) (user_words d)"
  by (simp_all add: delete_row_def)

text \<open>
  C7. With "delete word" staged (its category with it) and the user of the chat in the
  database, the handler returns normally. It looks for the first row of the user whose
  translation is the lower-cased text, whose category is the staged one (lower-cased
  again: \<open>delete_word\<close> stages it lower-cased, and lowering twice is lowering once) and
  whose level is the staged one; the foreign word plays no part. If a row is found, the
  rows with its primary key are deleted, which under unique keys removes exactly that
  row, the other tables are untouched, and the first message is "deleted". If none is
  found, the database is unchanged and the first message is "not found".
\<close>

theorem delete_commit:
  assumes a: "ts_action temp_state = Some ''delete_word''"
    and c: "ts_category temp_state = Some category"
    and u: "find (\<lambda>u. u_chat_id u = chat_id) (users (db w)) = Some user"
  shows
    "raised (process_word_actions chat_id message_text user state temp_state w) = None
     \<and> users (db (final (process_word_actions chat_id message_text user state temp_state w))) = users (db w)
     \<and> user_states (db (final (process_word_actions chat_id message_text user state temp_state w)))
         = user_states (db w)
     \<and> (\<forall>row. find (\<lambda>r. uw_user_id r = u_id user \<and> uw_translation r = lower message_text
                         \<and> uw_category r = lower category \<and> Some (uw_level r) = ts_level temp_state)
                 (user_words (db w)) = Some row \<longrightarrow>
           row \<in> set (user_words (db w))
           \<and> user_words (db (final (process_word_actions chat_id message_text user state temp_state w)))
               = filter (\<lambda>r. uw_id r \<noteq> uw_id row) (user_words (db w))
           \<and> (distinct (map uw_id (user_words (db w))) \<longrightarrow>
                user_words (db (final (process_word_actions chat_id message_text user state temp_state w)))
                  = remove1 row (user_words (db w)))
           \<and> take (Suc (length (sent w)))
                (sent (final (process_word_actions chat_id message_text user state temp_state w)))
               = sent w @ [(chat_id, Deleted (lower message_text))])
     \<and> (find (\<lambda>r. uw_user_id r = u_id user \<and> uw_translation r = lower message_text
                    \<and> uw_category r = lower category \<and> Some (uw_level r) = ts_level temp_state)
            (user_words (db w)) = None \<longrightarrow>
           db (final (process_word_actions chat_id message_text user state temp_state w)) = db w
           \<and> take (Suc (length (sent w)))
                (sent (final (process_word_actions chat_id message_text user state temp_state w)))
               = sent w @ [(chat_id, NotFound)])"
proof -
  let ?res = "process_word_actions chat_id message_text user state temp_state w"
  let ?P = "\<lambda>r. uw_user_id r = u_id user \<and> uw_translation r = lower message_text
                    \<and> uw_category r = lower category \<and> Some (uw_level r) = ts_level temp_state"
  have wd: "word_to_delete user (lower message_text) category (ts_level temp_state) (db w)
              = find ?P (user_words (db w))"
    by (simp add: word_to_delete_def)
  show ?thesis
  proof (cases "find ?P (user_words (db w))")
    case None
    let ?w1 = "send_message chat_id NotFound w"
    have eq: "?res = new_card_then_clear chat_id category state ?w1"
      using None by (simp add: process_is_delete[OF a] delete_translation_def c wd)
    have u1: "find (\<lambda>u. u_chat_id u = chat_id) (users (db ?w1)) = Some user" using u by simp
    from new_card_then_clear_found[OF u1, of category state] obtain w2 m where
      h: "db w2 = db ?w1" "sent w2 = sent ?w1 @ [(chat_id, m)]"
         "new_card_then_clear chat_id category state ?w1
             = Inr (w2\<lparr>users_state := (users_state w2)(chat_id := None)\<rparr>)"
      by (elim exE conjE) (rule that)
    show ?thesis using None h(1,2) by (simp add: eq h(3) raised_def final_def)
  next
    case (Some row)
    let ?w1 = "send_message chat_id (Deleted (lower message_text)) (w\<lparr>db := delete_row row (db w)\<rparr>)"
    have eq: "?res = new_card_then_clear chat_id category state ?w1"
      using Some by (simp add: process_is_delete[OF a] delete_translation_def c wd)
    have u1: "find (\<lambda>u. u_chat_id u = chat_id) (users (db ?w1)) = Some user" using u by simp
    from new_card_then_clear_found[OF u1, of category state] obtain w2 m where
      h: "db w2 = db ?w1" "sent w2 = sent ?w1 @ [(chat_id, m)]"
         "new_card_then_clear chat_id category state ?w1
             = Inr (w2\<lparr>users_state := (users_state w2)(chat_id := None)\<rparr>)"
      by (elim exE conjE) (rule that)
    have mem: "row \<in> set (user_words (db w))"
      using Some by (auto simp: find_Some_iff)
    have rm: "distinct (map uw_id (user_words (db w))) \<longrightarrow>
                filter (\<lambda>r. uw_id r \<noteq> uw_id row) (user_words (db w)) = remove1 row (user_words (db w))"
      using mem by (simp add: filter_other_ids)
    show ?thesis using Some h(1,2) mem rm by (simp add: eq h(3) raised_def final_def)
  qed
qed

section \<open>After a commit the session is gone\<close>

lemma users_insert [simp]: "users (insert_user_word user e ru cat lvl d) = users d"
  and user_states_insert [simp]: "user_states (insert_user_word user e ru cat lvl d) = user_states d"
  by (simp_all add: insert_user_word_def)

lemma add_translation_staged:
  assumes "ts_russian temp_state = Some ru" "ru \<noteq> []" "ts_category temp_state = Some cat" "cat \<noteq> []"
    "ts_level temp_state = Some lvl" "lvl \<noteq> 0"
  shows "add_translation chat_id text user state temp_state w =
          (let w1 = w\<lparr>users_state := (users_state w)(chat_id \<mapsto> temp_state\<lparr>ts_russian := None\<rparr>)\<rparr>
           in case existing_word user text ru cat lvl (db w) of
                Some row \<Rightarrow> new_card_then_clear chat_id cat state
                             (send_message chat_id (AlreadyExists ru text) w1)
              | None \<Rightarrow> new_card_then_clear chat_id cat state
                          (send_message chat_id (AlreadyExistsAfterInsert ru text)
                             (w1\<lparr>db := insert_user_word user text ru cat lvl (db w)\<rparr>)))"
  using assms
  by (simp add: add_translation_def Let_def falsy_str_def falsy_int_def State_set_def split: option.splits)

lemma commit_tail:
  assumes c: "ts_category temp_state = Some category"
    and staged: "(ts_action temp_state = Some ''add_translation'' \<and> category \<noteq> []
                   \<and> ts_russian temp_state = Some ru \<and> ru \<noteq> []
                   \<and> ts_level temp_state = Some lvl \<and> lvl \<noteq> 0)
                 \<or> ts_action temp_state = Some ''delete_word''"
  shows "\<exists>w1. users (db w1) = users (db w) \<and> user_states (db w1) = user_states (db w)
           \<and> process_word_actions chat_id message_text user state temp_state w
               = new_card_then_clear chat_id category state w1"
  using staged
proof
  assume a: "ts_action temp_state = Some ''add_translation'' \<and> category \<noteq> []
                   \<and> ts_russian temp_state = Some ru \<and> ru \<noteq> []
                   \<and> ts_level temp_state = Some lvl \<and> lvl \<noteq> 0"
  then have eq: "process_word_actions chat_id message_text user state temp_state w =
          (let w1 = w\<lparr>users_state := (users_state w)(chat_id \<mapsto> temp_state\<lparr>ts_russian := None\<rparr>)\<rparr>
           in case existing_word user (lower message_text) ru category lvl (db w) of
                Some row \<Rightarrow> new_card_then_clear chat_id category state
                             (send_message chat_id (AlreadyExists ru (lower message_text)) w1)
              | None \<Rightarrow> new_card_then_clear chat_id category state
                          (send_message chat_id (AlreadyExistsAfterInsert ru (lower message_text))
                             (w1\<lparr>db := insert_user_word user (lower message_text) ru category lvl (db w)\<rparr>)))"
    using add_translation_staged[of temp_state ru category lvl chat_id "lower message_text" user state w] c
    by (simp add: process_is_add)
  show ?thesis
  proof (cases "existing_word user (lower message_text) ru category lvl (db w)")
    case None
    show ?thesis
      by (rule exI[of _ "send_message chat_id (AlreadyExistsAfterInsert ru (lower message_text))
            (w\<lparr>users_state := (users_state w)(chat_id \<mapsto> temp_state\<lparr>ts_russian := None\<rparr>),
               db := insert_user_word user (lower message_text) ru category lvl (db w)\<rparr>)"])
         (simp add: eq None Let_def)
  next
    case (Some row)
    show ?thesis
      by (rule exI[of _ "send_message chat_id (AlreadyExists ru (lower message_text))
            (w\<lparr>users_state := (users_state w)(chat_id \<mapsto> temp_state\<lparr>ts_russian := None\<rparr>)\<rparr>)"])
         (simp add: eq Some Let_def)
  qed
next
  assume a: "ts_action temp_state = Some ''delete_word''"
  have eq: "process_word_actions chat_id message_text user state temp_state w =
      (case word_to_delete user (lower message_text) category (ts_level temp_state) (db w) of
             Some row \<Rightarrow>
               new_card_then_clear chat_id category state
                 (send_message chat_id (Deleted (lower message_text)) (w\<lparr>db := delete_row row (db w)\<rparr>))
           | None \<Rightarrow>
               new_card_then_clear chat_id category state (send_message chat_id NotFound w))"
    by (simp add: process_is_delete[OF a] delete_translation_def c)
  show ?thesis
  proof (cases "word_to_delete user (lower message_text) category (ts_level temp_state) (db w)")
    case None
    show ?thesis
      by (rule exI[of _ "send_message chat_id NotFound w"]) (simp add: eq None)
  next
    case (Some row)
    show ?thesis
      by (rule exI[of _ "send_message chat_id (Deleted (lower message_text)) (w\<lparr>db := delete_row row (db w)\<rparr>)"])
         (simp add: eq Some)
  qed
qed

lemma handle_text_no_session:
  assumes u: "find (\<lambda>u. u_chat_id u = chat_id) (users (db w)) = Some user"
    and s: "find (\<lambda>s. us_user_id s = u_id user) (user_states (db w)) = Some state"
    and n: "users_state w chat_id = None"
    and t: "text \<noteq> SELECT_CATEGORY" "text \<noteq> SELECT_LEVEL"
  shows "handle_text chat_id text w = Inr (w\<lparr>sent := sent w @ [(chat_id, CurrentWordNotFound)]\<rparr>)"
  using assms
  by (simp add: handle_text_def process_word_actions_def check_answer_def get_or_empty_def
      State_get_def empty_dict_def send_message_def Let_def)

text \<open>
  C10, amended. A committed add (staged word, category and level all present; duplicate
  or not) and a committed delete (found or not) end alike: \<open>create_card\<close> runs on the words
  of the staged category at the current level, and then the session of the chat is
  deleted whole. When that list has words a card is sent and a target word is stored,
  only to be erased with the pending action, the recent words and the wrong answers;
  when it has none, "no words available" is sent instead. Either way the chat has no
  session afterwards, and the next text that is not a menu button is answered with
  "current word not found".
\<close>

theorem commit_erases_session:
  assumes c: "ts_category temp_state = Some category"
    and staged: "(ts_action temp_state = Some ''add_translation'' \<and> category \<noteq> []
                   \<and> ts_russian temp_state = Some ru \<and> ru \<noteq> []
                   \<and> ts_level temp_state = Some lvl \<and> lvl \<noteq> 0)
                 \<or> ts_action temp_state = Some ''delete_word''"
    and u: "find (\<lambda>u. u_chat_id u = chat_id) (users (db w)) = Some user"
    and s: "find (\<lambda>s. us_user_id s = u_id user) (user_states (db w)) = Some state"
  shows "\<exists>w1 words w2 m.
           get_all_words chat_id (Some category) (db w1) = Inr words
         \<and> create_card chat_id category words state w1 = Inr w2
         \<and> sent w2 = sent w1 @ [(chat_id, m)]
         \<and> (words \<noteq> [] \<longrightarrow> (\<exists>translate options. m = Card (us_level state) category translate options)
                \<and> ts_target_word (session w2 chat_id) \<noteq> None)
         \<and> (words = [] \<longrightarrow> m = NoWordsAvailable)
         \<and> process_word_actions chat_id message_text user state temp_state w
             = Inr (w2\<lparr>users_state := (users_state w2)(chat_id := None)\<rparr>)
         \<and> users_state (final (process_word_actions chat_id message_text user state temp_state w)) chat_id = None
         \<and> session (final (process_word_actions chat_id message_text user state temp_state w)) chat_id = empty_dict
         \<and> (\<forall>text. text \<noteq> SELECT_CATEGORY \<and> text \<noteq> SELECT_LEVEL \<longrightarrow>
               handle_text chat_id text (final (process_word_actions chat_id message_text user state temp_state w))
                 = Inr ((final (process_word_actions chat_id message_text user state temp_state w))
                         \<lparr>sent := sent (final (process_word_actions chat_id message_text user state temp_state w))
                                   @ [(chat_id, CurrentWordNotFound)]\<rparr>))"
proof -
  let ?res = "process_word_actions chat_id message_text user state temp_state w"
  from commit_tail[OF c staged, of w chat_id message_text user state] obtain w1 where
    w1: "users (db w1) = users (db w)" "user_states (db w1) = user_states (db w)"
        "?res = new_card_then_clear chat_id category state w1"
    by (elim exE conjE) (rule that)
  have u1: "find (\<lambda>u. u_chat_id u = chat_id) (users (db w1)) = Some user" using u w1(1) by simp
  from new_card_then_clear_found[OF u1, of category state] obtain words w2 m where
    h: "get_all_words chat_id (Some category) (db w1) = Inr words"
       "create_card chat_id category words state w1 = Inr w2"
       "db w2 = db w1"
       "sent w2 = sent w1 @ [(chat_id, m)]"
       "words = [] \<longrightarrow> m = NoWordsAvailable \<and> users_state w2 = users_state w1"
       "words \<noteq> [] \<longrightarrow> (\<exists>translate options. m = Card (us_level state) category translate options)
                \<and> ts_target_word (session w2 chat_id) \<noteq> None"
       "new_card_then_clear chat_id category state w1
             = Inr (w2\<lparr>users_state := (users_state w2)(chat_id := None)\<rparr>)"
    by (elim exE conjE) (rule that)
  let ?w3 = "w2\<lparr>users_state := (users_state w2)(chat_id := None)\<rparr>"
  have res: "?res = Inr ?w3" using w1(3) h(7) by simp
  have fin: "final ?res = ?w3" by (simp add: res final_def)
  have u3: "find (\<lambda>u. u_chat_id u = chat_id) (users (db ?w3)) = Some user"
    using u w1(1) h(3) by simp
  have s3: "find (\<lambda>s. us_user_id s = u_id user) (user_states (db ?w3)) = Some state"
    using s w1(2) h(3) by simp
  have n3: "users_state ?w3 chat_id = None" by simp
  have next_answer: "\<forall>text. text \<noteq> SELECT_CATEGORY \<and> text \<noteq> SELECT_LEVEL \<longrightarrow>
      handle_text chat_id text ?w3 = Inr (?w3\<lparr>sent := sent ?w3 @ [(chat_id, CurrentWordNotFound)]\<rparr>)"
    using handle_text_no_session[OF u3 s3 n3] by blast
  have e: "session ?w3 chat_id = empty_dict" by (simp add: get_or_empty_def State_get_def)
  show ?thesis
    apply (rule exI[of _ w1], rule exI[of _ words], rule exI[of _ w2], rule exI[of _ m])
    unfolding fin
    using h(1,2,4,5,6) res n3 e next_answer by blast
qed

section \<open>Starting an add or a delete\<close>








text \<open>
  The handlers of this theory never write the long-lived states, so they keep the property
  of the reachable states; the places of the program that do write them are listed with
  its definition.
\<close>

lemma final_Inr: "final (Inr w) = w"
  and final_Inl: "final (Inl (e, w)) = w"
  by (simp_all add: final_def)

lemma db_create_card: "db (final (create_card chat_id category words state w)) = db w"
proof -
  from create_card_frame[of chat_id category words state w] obtain w' where
    "create_card chat_id category words state w = Inr w'" "db w' = db w"
    by (elim exE conjE) (rule that)
  then show ?thesis by (simp add: final_def)
qed

lemma db_new_card_then_clear: "db (final (new_card_then_clear chat_id category state w)) = db w"
proof (cases "get_all_words chat_id (Some category) (db w)")
  case (Inl e)
  then show ?thesis by (simp add: new_card_then_clear_def final_def)
next
  case (Inr words)
  from create_card_frame[of chat_id category words state w] obtain w' where
    "create_card chat_id category words state w = Inr w'" "db w' = db w"
    by (elim exE conjE) (rule that)
  with Inr show ?thesis by (simp add: new_card_then_clear_def final_def)
qed

lemma user_states_add_translation:
  "user_states (db (final (add_translation chat_id text user state temp_state w))) = user_states (db w)"
  by (auto simp: add_translation_def Let_def db_new_card_then_clear final_Inr final_Inl
      State_set_def insert_user_word_def split: option.splits)

lemma user_states_delete_translation:
  "user_states (db (final (delete_translation chat_id text user state temp_state w))) = user_states (db w)"
  by (auto simp: delete_translation_def db_new_card_then_clear final_Inr final_Inl
      split: option.splits)

lemma user_states_check_answer:
  "user_states (db (final (check_answer chat_id text user state temp_state w))) = user_states (db w)"
  by (auto simp: check_answer_def Let_def db_create_card final_Inr final_Inl State_set_def
      split: option.splits sum.splits)

lemma user_states_process_word_actions:
  "user_states (db (final (process_word_actions chat_id message_text user state temp_state w)))
     = user_states (db w)"
  by (simp add: process_word_actions_def Let_def user_states_add_translation
      user_states_delete_translation user_states_check_answer final_Inr State_set_def)

lemma db_stage_action: "db (final (stage_action action_name prompt chat_id w)) = db w"
  by (auto simp: stage_action_def Let_def final_Inr final_Inl State_set_def split: option.splits)

lemma invariant_kept:
  "category_needs_level (db (final (add_word chat_id w))) = category_needs_level (db w)"
  "category_needs_level (db (final (delete_word chat_id w))) = category_needs_level (db w)"
  "category_needs_level (db (final (handle_text chat_id message_text w))) = category_needs_level (db w)"
proof -
  show "category_needs_level (db (final (add_word chat_id w))) = category_needs_level (db w)"
    by (simp add: add_word_def db_stage_action)
  show "category_needs_level (db (final (delete_word chat_id w))) = category_needs_level (db w)"
    by (simp add: delete_word_def db_stage_action)
  have "user_states (db (final (handle_text chat_id message_text w))) = user_states (db w)"
    by (auto simp: handle_text_def user_states_process_word_actions final_Inr final_Inl
        split: option.splits)
  then show "category_needs_level (db (final (handle_text chat_id message_text w))) = category_needs_level (db w)"
    by (simp add: category_needs_level_def)
qed

section \<open>Commits evaluated\<close>

lemma deleting_fields:
  "ts_action deleting = Some ''delete_word''" "ts_category deleting = Some ''chisla''"
  "ts_level deleting = Some 1"
  by (simp_all add: deleting_def empty_dict_def)

lemma adding_stol_fields:
  "ts_action adding_stol = Some ''add_translation''" "ts_category adding_stol = Some ''chisla''"
  "ts_level adding_stol = Some 1" "ts_russian adding_stol = Some ''stol''"
  by (simp_all add: adding_stol_def empty_dict_def)

lemma numbers_world_found:
  "find (\<lambda>u. u_chat_id u = 100) (users (db (numbers_world sessions draws))) = Some vasya"
  "find (\<lambda>s. us_user_id s = u_id vasya) (user_states (db (numbers_world sessions draws)))
     = Some level1_numbers"
  "user_words (db (numbers_world sessions draws)) = numbers"
  "sent (numbers_world sessions draws) = []"
  by (simp_all add: numbers_world_def numbers_db_def vasya_def level1_numbers_def)

text \<open>
  Deleting "Odin" removes the row of "one" and only it; deleting "one" (a foreign word,
  not a translation) finds nothing and changes nothing.
\<close>

theorem delete_commit_witness:
  "ts_action deleting = Some ''delete_word''
   \<and> ts_category deleting = Some ''chisla''
   \<and> find (\<lambda>u. u_chat_id u = 100) (users (db (numbers_world [100 \<mapsto> deleting] []))) = Some vasya
   \<and> distinct (map uw_id (user_words (db (numbers_world [100 \<mapsto> deleting] []))))
   \<and> user_words (db (final (process_word_actions 100 ''Odin'' vasya level1_numbers deleting
         (numbers_world [100 \<mapsto> deleting] [])))) = [numbers ! 1, numbers ! 2]
   \<and> take 1 (sent (final (process_word_actions 100 ''Odin'' vasya level1_numbers deleting
         (numbers_world [100 \<mapsto> deleting] [])))) = [(100, Deleted ''odin'')]
   \<and> db (final (process_word_actions 100 ''one'' vasya level1_numbers deleting
         (numbers_world [100 \<mapsto> deleting] []))) = db (numbers_world [100 \<mapsto> deleting] [])
   \<and> take 1 (sent (final (process_word_actions 100 ''one'' vasya level1_numbers deleting
         (numbers_world [100 \<mapsto> deleting] [])))) = [(100, NotFound)]"
proof -
  let ?w = "numbers_world [100 \<mapsto> deleting] []"
  have d: "distinct (map uw_id (user_words (db ?w)))"
    by (simp add: numbers_world_found numbers_def)
  have f1: "find (\<lambda>r. uw_user_id r = u_id vasya \<and> uw_translation r = lower ''Odin''
                         \<and> uw_category r = lower ''chisla'' \<and> Some (uw_level r) = ts_level deleting)
                 (user_words (db ?w)) = Some (numbers ! 0)"
    by (simp add: numbers_world_found lower_examples deleting_fields) (simp add: numbers_def vasya_def)
  have f2: "find (\<lambda>r. uw_user_id r = u_id vasya \<and> uw_translation r = lower ''one''
                         \<and> uw_category r = lower ''chisla'' \<and> Some (uw_level r) = ts_level deleting)
                 (user_words (db ?w)) = None"
    by (simp add: numbers_world_found lower_examples deleting_fields) (simp add: numbers_def vasya_def)
  note t1 = delete_commit[OF deleting_fields(1,2) numbers_world_found(1)[of "[100 \<mapsto> deleting]" "[]"],
      where message_text = "''Odin''" and state = level1_numbers,
      THEN conjunct2, THEN conjunct2, THEN conjunct2, THEN conjunct1, THEN spec, THEN mp, OF f1]
  note t2 = delete_commit[OF deleting_fields(1,2) numbers_world_found(1)[of "[100 \<mapsto> deleting]" "[]"],
      where message_text = "''one''" and state = level1_numbers,
      THEN conjunct2, THEN conjunct2, THEN conjunct2, THEN conjunct2, THEN mp, OF f2]
  have r1: "user_words (db (final (process_word_actions 100 ''Odin'' vasya level1_numbers deleting ?w)))
      = [numbers ! 1, numbers ! 2]"
    using t1[THEN conjunct2, THEN conjunct2, THEN conjunct1, THEN mp, OF d]
    by (simp add: numbers_world_found) (simp add: numbers_def)
  have r2: "take 1 (sent (final (process_word_actions 100 ''Odin'' vasya level1_numbers deleting ?w)))
      = [(100, Deleted ''odin'')]"
    using t1[THEN conjunct2, THEN conjunct2, THEN conjunct2]
    by (simp add: numbers_world_found lower_examples)
  have r3: "db (final (process_word_actions 100 ''one'' vasya level1_numbers deleting ?w)) = db ?w"
    using t2[THEN conjunct1] .
  have r4: "take 1 (sent (final (process_word_actions 100 ''one'' vasya level1_numbers deleting ?w)))
      = [(100, NotFound)]"
    using t2[THEN conjunct2] by (simp add: numbers_world_found)
  from d r1 r2 r3 r4 show ?thesis by (simp add: deleting_fields numbers_world_found(1))
qed

text \<open>
  Adding "stol" / "Table": the word is stored, a card for "odin" is sent, the session is
  gone, and the answer "one" to that card gets "current word not found".
\<close>

theorem commit_erases_session_witness:
  "ts_category adding_stol = Some ''chisla''
   \<and> ts_action adding_stol = Some ''add_translation'' \<and> ts_russian adding_stol = Some ''stol''
   \<and> ts_level adding_stol = Some 1
   \<and> find (\<lambda>u. u_chat_id u = 100) (users (db (numbers_world [100 \<mapsto> adding_stol] []))) = Some vasya
   \<and> find (\<lambda>s. us_user_id s = u_id vasya) (user_states (db (numbers_world [100 \<mapsto> adding_stol] [])))
       = Some level1_numbers
   \<and> users_state (final (process_word_actions 100 ''Table'' vasya level1_numbers adding_stol
         (numbers_world [100 \<mapsto> adding_stol] []))) 100 = None
   \<and> sent (final (process_word_actions 100 ''Table'' vasya level1_numbers adding_stol
         (numbers_world [100 \<mapsto> adding_stol] [])))
       = [(100, AlreadyExistsAfterInsert ''stol'' ''table''),
          (100, Card (Some 1) ''chisla'' ''odin'' [''two'', ''table'', ''three'', ''one''])]
   \<and> sent (final (handle_text 100 ''one''
         (final (process_word_actions 100 ''Table'' vasya level1_numbers adding_stol
            (numbers_world [100 \<mapsto> adding_stol] [])))))
       = [(100, AlreadyExistsAfterInsert ''stol'' ''table''),
          (100, Card (Some 1) ''chisla'' ''odin'' [''two'', ''table'', ''three'', ''one'']),
          (100, CurrentWordNotFound)]"
proof -
  let ?w = "numbers_world [100 \<mapsto> adding_stol] []"
  let ?res = "process_word_actions 100 ''Table'' vasya level1_numbers adding_stol ?w"
  have st: "(ts_action adding_stol = Some ''add_translation'' \<and> ''chisla'' \<noteq> []
                   \<and> ts_russian adding_stol = Some ''stol'' \<and> ''stol'' \<noteq> []
                   \<and> ts_level adding_stol = Some 1 \<and> (1::int) \<noteq> 0)
                 \<or> ts_action adding_stol = Some ''delete_word''"
    by (simp add: adding_stol_fields)
  have sent_eval: "sent (final ?res)
       = [(100, AlreadyExistsAfterInsert ''stol'' ''table''),
          (100, Card (Some 1) ''chisla'' ''odin'' [''two'', ''table'', ''three'', ''one''])]"
    by code_simp
  have not_menu: "''one'' \<noteq> SELECT_CATEGORY \<and> ''one'' \<noteq> SELECT_LEVEL"
    by (simp add: SELECT_CATEGORY_def SELECT_LEVEL_def)
  note erased = commit_erases_session[OF adding_stol_fields(2) st
      numbers_world_found(1)[of "[100 \<mapsto> adding_stol]" "[]"]
      numbers_world_found(2)[of "[100 \<mapsto> adding_stol]" "[]"],
      where message_text = "''Table''"]
  have n: "users_state (final ?res) 100 = None"
    using erased by (elim exE conjE) assumption
  have h: "\<forall>text. text \<noteq> SELECT_CATEGORY \<and> text \<noteq> SELECT_LEVEL \<longrightarrow>
               handle_text 100 text (final ?res)
                 = Inr ((final ?res)\<lparr>sent := sent (final ?res) @ [(100, CurrentWordNotFound)]\<rparr>)"
    using erased by (elim exE conjE) assumption
  from h not_menu have "handle_text 100 ''one'' (final ?res)
                 = Inr ((final ?res)\<lparr>sent := sent (final ?res) @ [(100, CurrentWordNotFound)]\<rparr>)"
    by blast
  then have nx: "sent (final (handle_text 100 ''one'' (final ?res)))
      = sent (final ?res) @ [(100, CurrentWordNotFound)]"
    by (simp add: final_def)
  show ?thesis
    using n nx sent_eval by (simp add: adding_stol_fields numbers_world_found)
qed

text \<open>
  C10 as stated fails: deleting the only word of the category leaves no candidates, so
  the commit is followed by "no words available" and not by a card; the session is
  erased all the same.
\<close>

theorem delete_last_word_without_card:
  "ts_action deleting = Some ''delete_word''
   \<and> raised (process_word_actions 100 ''odin'' vasya level1_numbers deleting
        (vasya_world level1_numbers [numbers ! 0] [100 \<mapsto> deleting] [])) = None
   \<and> user_words (db (final (process_word_actions 100 ''odin'' vasya level1_numbers deleting
        (vasya_world level1_numbers [numbers ! 0] [100 \<mapsto> deleting] [])))) = []
   \<and> sent (final (process_word_actions 100 ''odin'' vasya level1_numbers deleting
        (vasya_world level1_numbers [numbers ! 0] [100 \<mapsto> deleting] [])))
       = [(100, Deleted ''odin''), (100, NoWordsAvailable)]
   \<and> users_state (final (process_word_actions 100 ''odin'' vasya level1_numbers deleting
        (vasya_world level1_numbers [numbers ! 0] [100 \<mapsto> deleting] []))) 100 = None"
  by code_simp

text \<open>
  C6, the defect. The staged add of "stol" / "Table" finds no such row and inserts one
  with the normalized fields, but its \<open>is_custom\<close> flag is \<open>False\<close>: the constructor call of
  line 674 does not set the flag, and the column defaults to \<open>False\<close>.
\<close>

theorem added_word_is_not_custom:
  "ts_action adding_stol = Some ''add_translation''
   \<and> existing_word vasya ''table'' ''stol'' ''chisla'' 1 (db (numbers_world [100 \<mapsto> adding_stol] [])) = None
   \<and> user_words (db (final (process_word_actions 100 ''Table'' vasya level1_numbers adding_stol
         (numbers_world [100 \<mapsto> adding_stol] []))))
       = numbers @ [\<lparr>uw_id = 4, uw_user_id = 1, uw_word = ''table'', uw_translation = ''stol'',
                     uw_category = ''chisla'', uw_level = 1, uw_is_custom = False\<rparr>]
   \<and> uw_is_custom (last (user_words (db (final (process_word_actions 100 ''Table'' vasya level1_numbers
         adding_stol (numbers_world [100 \<mapsto> adding_stol] [])))))) = False"
  by code_simp

section \<open>Committing an add\<close>

lemma existing_after_insert:
  "existing_word user english russian category level (insert_user_word user english russian category level d) \<noteq> None"
proof -
  let ?new = "\<lparr>uw_id = user_words_seq d, uw_user_id = u_id user, uw_word = lower english,
               uw_translation = lower russian, uw_category = lower category, uw_level = level,
               uw_is_custom = False\<rparr>"
  have "?new \<in> set (user_words (insert_user_word user english russian category level d))"
    by (simp add: insert_user_word_def)
  moreover have "uw_user_id ?new = u_id user \<and> uw_word ?new = lower english
      \<and> uw_translation ?new = lower russian \<and> uw_category ?new = lower category
      \<and> uw_level ?new = level" by simp
  ultimately show ?thesis
    unfolding existing_word_def find_None_iff by blast
qed

text \<open>
  The add commit in general (the parts of C6 that hold). With a word, a category and a
  level staged for an add and the user of the chat in the database, the handler returns
  normally. If a row of the user with the lower-cased
  word, translation and category and the level exists, the database is unchanged and the
  first message says that the word already exists. Otherwise exactly one row is appended
  to \<open>user_words\<close>, with the next id of the sequence, those normalized fields and
  \<open>is_custom = False\<close>, the other tables are untouched, and from then on the same pair is
  found as existing: a second commit of it takes the first branch and stores nothing.
\<close>

theorem add_commit:
  assumes a: "ts_action temp_state = Some ''add_translation''"
    and r: "ts_russian temp_state = Some ru" "ru \<noteq> []"
    and c: "ts_category temp_state = Some category" "category \<noteq> []"
    and l: "ts_level temp_state = Some lvl" "lvl \<noteq> 0"
    and u: "find (\<lambda>u. u_chat_id u = chat_id) (users (db w)) = Some user"
  shows
    "raised (process_word_actions chat_id message_text user state temp_state w) = None
     \<and> (\<forall>row. existing_word user (lower message_text) ru category lvl (db w) = Some row \<longrightarrow>
           db (final (process_word_actions chat_id message_text user state temp_state w)) = db w
           \<and> take (Suc (length (sent w)))
                (sent (final (process_word_actions chat_id message_text user state temp_state w)))
               = sent w @ [(chat_id, AlreadyExists ru (lower message_text))])
     \<and> (existing_word user (lower message_text) ru category lvl (db w) = None \<longrightarrow>
           user_words (db (final (process_word_actions chat_id message_text user state temp_state w)))
             = user_words (db w) @
                 [\<lparr>uw_id = user_words_seq (db w), uw_user_id = u_id user, uw_word = lower message_text,
                   uw_translation = lower ru, uw_category = lower category, uw_level = lvl,
                   uw_is_custom = False\<rparr>]
           \<and> users (db (final (process_word_actions chat_id message_text user state temp_state w)))
               = users (db w)
           \<and> user_states (db (final (process_word_actions chat_id message_text user state temp_state w)))
               = user_states (db w)
           \<and> take (Suc (length (sent w)))
                (sent (final (process_word_actions chat_id message_text user state temp_state w)))
               = sent w @ [(chat_id, AlreadyExistsAfterInsert ru (lower message_text))]
           \<and> existing_word user (lower message_text) ru category lvl
                (db (final (process_word_actions chat_id message_text user state temp_state w))) \<noteq> None)"
proof -
  let ?res = "process_word_actions chat_id message_text user state temp_state w"
  let ?ws = "w\<lparr>users_state := (users_state w)(chat_id \<mapsto> temp_state\<lparr>ts_russian := None\<rparr>)\<rparr>"
  note st = add_translation_staged[OF r c l, of chat_id "lower message_text" user state w]
  show ?thesis
  proof (cases "existing_word user (lower message_text) ru category lvl (db w)")
    case None
    let ?w1 = "send_message chat_id (AlreadyExistsAfterInsert ru (lower message_text))
                 (?ws\<lparr>db := insert_user_word user (lower message_text) ru category lvl (db w)\<rparr>)"
    have eq: "?res = new_card_then_clear chat_id category state ?w1"
      using None by (simp add: process_is_add[OF a] st Let_def)
    have u1: "find (\<lambda>u. u_chat_id u = chat_id) (users (db ?w1)) = Some user" using u by simp
    from new_card_then_clear_found[OF u1, of category state] obtain w2 m where
      h: "db w2 = db ?w1" "sent w2 = sent ?w1 @ [(chat_id, m)]"
         "new_card_then_clear chat_id category state ?w1
             = Inr (w2\<lparr>users_state := (users_state w2)(chat_id := None)\<rparr>)"
      by (elim exE conjE) (rule that)
    have dbf: "db (final ?res) = insert_user_word user (lower message_text) ru category lvl (db w)"
      using h(1) by (simp add: eq h(3) final_def)
    have rows: "user_words (insert_user_word user (lower message_text) ru category lvl (db w))
       = user_words (db w) @
                 [\<lparr>uw_id = user_words_seq (db w), uw_user_id = u_id user, uw_word = lower message_text,
                   uw_translation = lower ru, uw_category = lower category, uw_level = lvl,
                   uw_is_custom = False\<rparr>]"
      by (simp add: insert_user_word_def lower_lower)
    show ?thesis
      using None h(2) rows existing_after_insert[of user "lower message_text" ru category lvl "db w"]
      unfolding dbf by (simp add: eq h(3) raised_def final_def)
  next
    case (Some row)
    let ?w1 = "send_message chat_id (AlreadyExists ru (lower message_text)) ?ws"
    have eq: "?res = new_card_then_clear chat_id category state ?w1"
      using Some by (simp add: process_is_add[OF a] st Let_def)
    have u1: "find (\<lambda>u. u_chat_id u = chat_id) (users (db ?w1)) = Some user" using u by simp
    from new_card_then_clear_found[OF u1, of category state] obtain w2 m where
      h: "db w2 = db ?w1" "sent w2 = sent ?w1 @ [(chat_id, m)]"
         "new_card_then_clear chat_id category state ?w1
             = Inr (w2\<lparr>users_state := (users_state w2)(chat_id := None)\<rparr>)"
      by (elim exE conjE) (rule that)
    show ?thesis using Some h(1,2) by (simp add: eq h(3) raised_def final_def)
  qed
qed

text \<open>The add of "stol" / "Table" to the three numbers.\<close>

theorem add_commit_witness:
  "ts_action adding_stol = Some ''add_translation''
   \<and> ts_russian adding_stol = Some ''stol'' \<and> ts_category adding_stol = Some ''chisla''
   \<and> ts_level adding_stol = Some 1
   \<and> find (\<lambda>u. u_chat_id u = 100) (users (db (numbers_world [100 \<mapsto> adding_stol] []))) = Some vasya
   \<and> existing_word vasya (lower ''Table'') ''stol'' ''chisla'' 1 (db (numbers_world [100 \<mapsto> adding_stol] [])) = None
   \<and> user_words (db (final (process_word_actions 100 ''Table'' vasya level1_numbers adding_stol
         (numbers_world [100 \<mapsto> adding_stol] []))))
       = numbers @ [\<lparr>uw_id = 4, uw_user_id = 1, uw_word = ''table'', uw_translation = ''stol'',
                     uw_category = ''chisla'', uw_level = 1, uw_is_custom = False\<rparr>]
   \<and> existing_word vasya (lower ''Table'') ''stol'' ''chisla'' 1
        (db (final (process_word_actions 100 ''Table'' vasya level1_numbers adding_stol
           (numbers_world [100 \<mapsto> adding_stol] [])))) \<noteq> None"
proof -
  have e: "existing_word vasya (lower ''Table'') ''stol'' ''chisla'' 1 (db (numbers_world [100 \<mapsto> adding_stol] [])) = None"
    by (simp add: existing_word_def numbers_world_found lower_examples) (simp add: numbers_def)
  have ne: "''stol'' \<noteq> []" "''chisla'' \<noteq> []" "(1::int) \<noteq> 0" by simp_all
  note t = add_commit[OF adding_stol_fields(1) adding_stol_fields(4) ne(1) adding_stol_fields(2) ne(2)
      adding_stol_fields(3) ne(3) numbers_world_found(1)[of "[100 \<mapsto> adding_stol]" "[]"],
      where message_text = "''Table''" and state = level1_numbers,
      THEN conjunct2, THEN conjunct2, THEN mp, OF e]
  have r1: "user_words (db (final (process_word_actions 100 ''Table'' vasya level1_numbers adding_stol
         (numbers_world [100 \<mapsto> adding_stol] []))))
       = numbers @ [\<lparr>uw_id = 4, uw_user_id = 1, uw_word = ''table'', uw_translation = ''stol'',
                     uw_category = ''chisla'', uw_level = 1, uw_is_custom = False\<rparr>]"
    using t[THEN conjunct1]
    by (simp add: numbers_world_found lower_examples) (simp add: numbers_world_def numbers_db_def vasya_def)
  have r2: "existing_word vasya (lower ''Table'') ''stol'' ''chisla'' 1
        (db (final (process_word_actions 100 ''Table'' vasya level1_numbers adding_stol
           (numbers_world [100 \<mapsto> adding_stol] [])))) \<noteq> None"
    using t[THEN conjunct2, THEN conjunct2, THEN conjunct2, THEN conjunct2] .
  from e r1 r2 show ?thesis by (simp add: adding_stol_fields numbers_world_found(1))
qed

end
